theory Spec2Isabelle
  imports Main
begin

section \<open>Configuration models\<close>

text \<open>
  The four schema classes of \<^verbatim>\<open>main.py\<close>. A validated \<^verbatim>\<open>ButtonModel\<close>,
  \<^verbatim>\<open>LedModel\<close> or \<^verbatim>\<open>InfluxdbModel\<close> has every field (all of them are declared
  \<^verbatim>\<open>required=True\<close>). The three sections of \<^verbatim>\<open>OverallModel\<close> are declared
  without \<^verbatim>\<open>required\<close>, so a validated \<^verbatim>\<open>OverallModel\<close> may hold
  \<^verbatim>\<open>None\<close> there; \<^verbatim>\<open>bouncetime\<close> has a default.
\<close>

datatype ButtonModel = ButtonModel (pin: int) (label: string) (button_value: int)

datatype LedModel = LedModel (pin: int) (flash_time_ms: int)

datatype InfluxdbModel = InfluxdbModel (database_name: string) (measurement_name: string)

datatype OverallModel =
  OverallModel (buttons: "ButtonModel list option") (led: "LedModel option")
    (bouncetime: int) (influxdb: "InfluxdbModel option")

text \<open>
  What \<^verbatim>\<open>yaml.safe_load\<close> hands to the schema: every key may be absent
  (\<open>None\<close>). A key given with an explicit null, and values of the wrong type, are
  outside this model.
\<close>

datatype RawButton =
  RawButton (raw_pin: "int option") (raw_label: "string option") (raw_value: "int option")

datatype RawLed = RawLed (raw_led_pin: "int option") (raw_flash_time_ms: "int option")

datatype RawInfluxdb =
  RawInfluxdb (raw_database_name: "string option") (raw_measurement_name: "string option")

datatype RawConfig =
  RawConfig (raw_buttons: "RawButton list option") (raw_led: "RawLed option")
    (raw_bouncetime: "int option") (raw_influxdb: "RawInfluxdb option")

section \<open>Exceptions, external calls and the world\<close>

text \<open>
  \<open>DataError\<close> is what the schema library raises on a validation failure (the
  specification calls it ConfigurationError). \<open>AttributeError\<close>, \<open>TypeError\<close> and
  \<open>ValueError\<close> are raised by the interpreter. \<open>HardwareFault\<close> is the GPIO facility's
  refusal to configure a pin that is already claimed. \<open>LibraryError\<close> is whatever else an
  external collaborator (file system, YAML parser, GPIO facility, time-series client, an
  interrupt delivered as an exception in \<^verbatim>\<open>time.sleep\<close>) raises.
\<close>

datatype exn =
  DataError | AttributeError | TypeError | ValueError | HardwareFault | LibraryError string

datatype severity = DEBUG | INFO | ERROR

datatype level = LOW | HIGH

datatype numbering = BOARD | BCM

datatype direction = IN | OUT

datatype pull = PUD_OFF | PUD_DOWN | PUD_UP

datatype edge = RISING | FALLING | BOTH

text \<open>The dictionary built in the upload callback; instants are milliseconds.\<close>

datatype measurement =
  Measurement (m_measurement: string) (m_fields: "(string \<times> int) list") (m_time: int)

datatype client = InfluxDBClient string

datatype logmsg =
    LoadedConfiguration OverallModel
  | UploadingMeasurement measurement
  | InfluxdbResponse
  | TurningLedOn
  | TurnedLedOff
  | ButtonPressed string int
  | CallbackGotEventFor int int
  | GpioInitComplete
  | ClosingGpio
  | StillAlive

text \<open>
  Every call the program makes on a collaborator, in the order it makes it. The callback
  passed to \<^verbatim>\<open>GPIO.add_event_detect\<close> is the closure
  \<^verbatim>\<open>callback_for_button(button, button_handler)\<close>; it is recorded by the button it
  captures. \<open>Time_sleep\<close> carries milliseconds (the source divides by 1000.0 and sleeps
  seconds).
\<close>

datatype call =
    Logging_basicConfig
  | Log severity logmsg
  | Open_file string
  | Yaml_safe_load
  | GPIO_setmode numbering
  | GPIO_setup int direction "pull option"
  | GPIO_add_event_detect int edge ButtonModel int
  | GPIO_output int level
  | GPIO_cleanup
  | Time_sleep int
  | New_InfluxDBClient string
  | Create_database string
  | Write_points client "measurement list"

record world =
  events :: "call list"
  gpio_mode :: "numbering option"
  channels :: "(int \<times> direction) list"
  listeners :: "(int \<times> ButtonModel \<times> int) list"

text \<open>
  Whether a collaborator call raises is not decided by the program: it is a parameter,
  a function of the calls made so far and of the call attempted.
\<close>

type_synonym faults = "call list \<Rightarrow> call \<Rightarrow> string option"

type_synonym 'a outcome = "(exn + 'a) \<times> world"

type_synonym handler = "ButtonModel \<Rightarrow> int \<Rightarrow> world \<Rightarrow> unit outcome"

definition no_faults :: faults where
  "no_faults = (\<lambda>h c. None)"

definition record_call :: "call \<Rightarrow> world \<Rightarrow> world" where
  "record_call c w = w\<lparr>events := events w @ [c]\<rparr>"

definition extcall :: "faults \<Rightarrow> call \<Rightarrow> (world \<Rightarrow> world) \<Rightarrow> world \<Rightarrow> unit outcome" where
  "extcall flt c eff w =
     (case flt (events w) c of
        Some msg \<Rightarrow> (Inl (LibraryError msg), record_call c w)
      | None \<Rightarrow> (Inr (), eff (record_call c w)))"

definition raise :: "exn \<Rightarrow> world \<Rightarrow> unit outcome" where
  "raise e w = (Inl e, w)"

definition skip :: "world \<Rightarrow> unit outcome" where
  "skip w = (Inr (), w)"

definition andthen ::
  "(world \<Rightarrow> unit outcome) \<Rightarrow> (world \<Rightarrow> unit outcome) \<Rightarrow> world \<Rightarrow> unit outcome" where
  "andthen p q w = (case p w of (Inl e, w') \<Rightarrow> (Inl e, w') | (Inr u, w') \<Rightarrow> q w')"

fun for_each :: "('a \<Rightarrow> world \<Rightarrow> unit outcome) \<Rightarrow> 'a list \<Rightarrow> world \<Rightarrow> unit outcome" where
  "for_each f [] w = (Inr (), w)"
| "for_each f (x # xs) w =
     (case f x w of (Inl e, w') \<Rightarrow> (Inl e, w') | (Inr u, w') \<Rightarrow> for_each f xs w')"

definition logger :: "severity \<Rightarrow> logmsg \<Rightarrow> world \<Rightarrow> unit outcome" where
  "logger s m w = (Inr (), record_call (Log s m) w)"

subsection \<open>The GPIO facility\<close>

text \<open>
  Modelled from the spec: the platform GPIO library is not part of the repository. Its
  effect on the set of claimed pins and armed listeners follows section 4.1 of the
  specification: configuring claims a pin and fails with \<open>HardwareFault\<close> when the pin
  is already claimed, registering arms a listener, and \<^verbatim>\<open>release_all\<close>
  (\<^verbatim>\<open>GPIO.cleanup\<close>) releases every claimed pin, disarms every listener and does not
  fail. Whether a call fails for any other reason is left to \<open>faults\<close>.
\<close>

definition GPIO_setmode_call :: "faults \<Rightarrow> numbering \<Rightarrow> world \<Rightarrow> unit outcome" where
  "GPIO_setmode_call flt m = extcall flt (GPIO_setmode m) (\<lambda>w. w\<lparr>gpio_mode := Some m\<rparr>)"

definition GPIO_setup_call ::
  "faults \<Rightarrow> int \<Rightarrow> direction \<Rightarrow> pull option \<Rightarrow> world \<Rightarrow> unit outcome" where
  "GPIO_setup_call flt p d pud w =
     (if p \<in> set (map fst (channels w))
      then (Inl HardwareFault, record_call (GPIO_setup p d pud) w)
      else extcall flt (GPIO_setup p d pud) (\<lambda>w. w\<lparr>channels := channels w @ [(p, d)]\<rparr>) w)"

definition GPIO_add_event_detect_call ::
  "faults \<Rightarrow> int \<Rightarrow> edge \<Rightarrow> ButtonModel \<Rightarrow> int \<Rightarrow> world \<Rightarrow> unit outcome" where
  "GPIO_add_event_detect_call flt p e b bt =
     extcall flt (GPIO_add_event_detect p e b bt) (\<lambda>w. w\<lparr>listeners := listeners w @ [(p, b, bt)]\<rparr>)"

definition GPIO_output_call :: "faults \<Rightarrow> int \<Rightarrow> level \<Rightarrow> world \<Rightarrow> unit outcome" where
  "GPIO_output_call flt p l = extcall flt (GPIO_output p l) (\<lambda>w. w)"

definition GPIO_cleanup_call :: "world \<Rightarrow> unit outcome" where
  "GPIO_cleanup_call w =
     (Inr (), (record_call GPIO_cleanup w)\<lparr>gpio_mode := None, channels := [], listeners := []\<rparr>)"

text \<open>\<^verbatim>\<open>time.sleep\<close> raises ValueError on a negative length before it sleeps.\<close>

definition time_sleep :: "faults \<Rightarrow> int \<Rightarrow> world \<Rightarrow> unit outcome" where
  "time_sleep flt ms = (if ms < 0 then raise ValueError else extcall flt (Time_sleep ms) (\<lambda>w. w))"

section \<open>Loading the configuration\<close>

text \<open>
  The schema library's rules for the declarations of the source: a field declared
  \<^verbatim>\<open>required=True\<close> without a default fails validation when absent; a default fills
  an absent field; a field that is not required and has no default stays \<^verbatim>\<open>None\<close>.
\<close>

definition ButtonModel_validate :: "RawButton \<Rightarrow> exn + ButtonModel" where
  "ButtonModel_validate rb =
     (case raw_pin rb of None \<Rightarrow> Inl DataError
      | Some p \<Rightarrow>
        (case raw_label rb of None \<Rightarrow> Inl DataError
         | Some l \<Rightarrow>
           (case raw_value rb of None \<Rightarrow> Inl DataError
            | Some v \<Rightarrow> Inr (ButtonModel p l v))))"

fun ButtonModel_validate_list :: "RawButton list \<Rightarrow> exn + ButtonModel list" where
  "ButtonModel_validate_list [] = Inr []"
| "ButtonModel_validate_list (rb # rbs) =
     (case ButtonModel_validate rb of Inl e \<Rightarrow> Inl e
      | Inr b \<Rightarrow>
        (case ButtonModel_validate_list rbs of Inl e \<Rightarrow> Inl e | Inr bs \<Rightarrow> Inr (b # bs)))"

definition LedModel_validate :: "RawLed \<Rightarrow> exn + LedModel" where
  "LedModel_validate rl =
     (case raw_led_pin rl of None \<Rightarrow> Inl DataError
      | Some p \<Rightarrow>
        Inr (LedModel p (case raw_flash_time_ms rl of None \<Rightarrow> 200 | Some t \<Rightarrow> t)))"

definition InfluxdbModel_validate :: "RawInfluxdb \<Rightarrow> exn + InfluxdbModel" where
  "InfluxdbModel_validate ri =
     (case raw_database_name ri of None \<Rightarrow> Inl DataError
      | Some d \<Rightarrow>
        Inr (InfluxdbModel d
              (case raw_measurement_name ri of None \<Rightarrow> ''pi_mood'' | Some m \<Rightarrow> m)))"

definition optional :: "('a \<Rightarrow> exn + 'b) \<Rightarrow> 'a option \<Rightarrow> exn + 'b option" where
  "optional f x =
     (case x of None \<Rightarrow> Inr None
      | Some y \<Rightarrow> (case f y of Inl e \<Rightarrow> Inl e | Inr z \<Rightarrow> Inr (Some z)))"

definition OverallModel_validate :: "RawConfig \<Rightarrow> exn + OverallModel" where
  "OverallModel_validate rc =
     (case optional ButtonModel_validate_list (raw_buttons rc) of Inl e \<Rightarrow> Inl e
      | Inr bs \<Rightarrow>
        (case optional LedModel_validate (raw_led rc) of Inl e \<Rightarrow> Inl e
         | Inr l \<Rightarrow>
           (case optional InfluxdbModel_validate (raw_influxdb rc) of Inl e \<Rightarrow> Inl e
            | Inr i \<Rightarrow>
              Inr (OverallModel bs l
                    (case raw_bouncetime rc of None \<Rightarrow> 200 | Some t \<Rightarrow> t) i))))"

text \<open>\<open>raw_cfg\<close> is what the YAML parser returns for the file.\<close>

definition load_config_from_file ::
  "faults \<Rightarrow> string \<Rightarrow> RawConfig \<Rightarrow> world \<Rightarrow> OverallModel outcome" where
  "load_config_from_file flt filename raw_cfg w =
     (case andthen (extcall flt (Open_file filename) (\<lambda>w. w))
             (extcall flt Yaml_safe_load (\<lambda>w. w)) w of
        (Inl e, w') \<Rightarrow> (Inl e, w')
      | (Inr u, w') \<Rightarrow>
        (case OverallModel_validate raw_cfg of
           Inl e \<Rightarrow> (Inl e, w')
         | Inr cfg \<Rightarrow> (Inr cfg, record_call (Log INFO (LoadedConfiguration cfg)) w')))"

definition setup_logging :: "faults \<Rightarrow> world \<Rightarrow> unit outcome" where
  "setup_logging flt = extcall flt Logging_basicConfig (\<lambda>w. w)"

section \<open>The action pipeline\<close>

definition get_influxdb_client :: "faults \<Rightarrow> InfluxdbModel option \<Rightarrow> world \<Rightarrow> client outcome" where
  "get_influxdb_client flt config w =
     (case config of
        None \<Rightarrow> (Inl AttributeError, w)
      | Some c \<Rightarrow>
        (case andthen (extcall flt (New_InfluxDBClient (database_name c)) (\<lambda>w. w))
                (extcall flt (Create_database (database_name c)) (\<lambda>w. w)) w of
           (Inl e, w') \<Rightarrow> (Inl e, w')
         | (Inr u, w') \<Rightarrow> (Inr (InfluxDBClient (database_name c)), w')))"

text \<open>
  The inner \<^verbatim>\<open>callback\<close> of \<^verbatim>\<open>post_to_influxdb_callback\<close>, with the variables
  it closes over (\<^verbatim>\<open>config\<close>, \<^verbatim>\<open>influx_client\<close>) as parameters; \<open>now\<close> is what
  \<^verbatim>\<open>datetime.utcnow()\<close> returns on this invocation.
\<close>

definition influxdb_callback ::
  "faults \<Rightarrow> InfluxdbModel option \<Rightarrow> client \<Rightarrow> handler" where
  "influxdb_callback flt config influx_client button now =
     (case config of
        None \<Rightarrow> raise AttributeError
      | Some c \<Rightarrow>
        (let m = Measurement (measurement_name c)
                   [(ButtonModel.label button, button_value button)] now
         in andthen (logger DEBUG (UploadingMeasurement m))
              (andthen (extcall flt (Write_points influx_client [m]) (\<lambda>w. w))
                 (logger DEBUG InfluxdbResponse))))"

definition post_to_influxdb_callback ::
  "faults \<Rightarrow> InfluxdbModel option \<Rightarrow> world \<Rightarrow> handler outcome" where
  "post_to_influxdb_callback flt config w =
     (case get_influxdb_client flt config w of
        (Inl e, w') \<Rightarrow> (Inl e, w')
      | (Inr influx_client, w') \<Rightarrow> (Inr (influxdb_callback flt config influx_client), w'))"

definition flash_led :: "faults \<Rightarrow> LedModel option \<Rightarrow> world \<Rightarrow> unit outcome" where
  "flash_led flt led_model =
     andthen (logger DEBUG TurningLedOn)
       (case led_model of
          None \<Rightarrow> raise AttributeError
        | Some l \<Rightarrow>
          andthen (GPIO_output_call flt (LedModel.pin l) HIGH)
            (andthen (time_sleep flt (flash_time_ms l))
               (andthen (GPIO_output_call flt (LedModel.pin l) LOW)
                  (logger DEBUG TurnedLedOff))))"

text \<open>The inner \<^verbatim>\<open>callback\<close> of \<^verbatim>\<open>post_to_influxdb_and_flash_led_callback\<close>.\<close>

definition influxdb_and_flash_led_callback ::
  "faults \<Rightarrow> OverallModel \<Rightarrow> handler \<Rightarrow> handler" where
  "influxdb_and_flash_led_callback flt config influxdb_cb button now =
     andthen (influxdb_cb button now) (flash_led flt (led config))"

definition post_to_influxdb_and_flash_led_callback ::
  "faults \<Rightarrow> OverallModel \<Rightarrow> world \<Rightarrow> handler outcome" where
  "post_to_influxdb_and_flash_led_callback flt config w =
     (case post_to_influxdb_callback flt (influxdb config) w of
        (Inl e, w') \<Rightarrow> (Inl e, w')
      | (Inr influxdb_cb, w') \<Rightarrow> (Inr (influxdb_and_flash_led_callback flt config influxdb_cb), w'))"

section \<open>Edge callbacks and GPIO lifecycle\<close>

text \<open>
  The closure returned by \<^verbatim>\<open>callback_for_button\<close>, called by the GPIO facility with
  the pin on which it saw an edge.
\<close>

definition callback_for_button ::
  "ButtonModel \<Rightarrow> handler \<Rightarrow> int \<Rightarrow> int \<Rightarrow> world \<Rightarrow> unit outcome" where
  "callback_for_button button hdl p now =
     andthen (logger INFO (ButtonPressed (ButtonModel.label button) p))
       (andthen
          (if p \<noteq> ButtonModel.pin button
           then logger ERROR (CallbackGotEventFor (ButtonModel.pin button) p) else skip)
          (hdl button now))"

definition init_gpio :: "faults \<Rightarrow> OverallModel \<Rightarrow> world \<Rightarrow> unit outcome" where
  "init_gpio flt physical_config =
     andthen (GPIO_setmode_call flt BOARD)
       (case buttons physical_config of
          None \<Rightarrow> raise TypeError
        | Some bs \<Rightarrow>
          andthen
            (for_each
               (\<lambda>button.
                  andthen (GPIO_setup_call flt (ButtonModel.pin button) IN (Some PUD_DOWN))
                    (GPIO_add_event_detect_call flt (ButtonModel.pin button) RISING button
                       (bouncetime physical_config)))
               bs)
            (case led physical_config of
               None \<Rightarrow> raise AttributeError
             | Some l \<Rightarrow>
               andthen (GPIO_setup_call flt (LedModel.pin l) OUT None)
                 (andthen (GPIO_output_call flt (LedModel.pin l) LOW)
                    (logger INFO GpioInitComplete))))"

definition close_gpio :: "world \<Rightarrow> unit outcome" where
  "close_gpio = andthen (logger INFO ClosingGpio) GPIO_cleanup_call"

text \<open>
  \<^verbatim>\<open>try: ... finally: close_gpio()\<close>: the teardown runs whatever the protected part
  did; an exception of the teardown replaces the pending one.
\<close>

definition finally_close_gpio :: "unit outcome \<Rightarrow> unit outcome" where
  "finally_close_gpio rw =
     (case close_gpio (snd rw) of
        (Inl e, w') \<Rightarrow> (Inl e, w')
      | (Inr u, w') \<Rightarrow> (fst rw, w'))"

text \<open>
  How a part of the program that may run for ever stands when it is looked at: still
  running (the fuel of the model is spent), ended by returning or raising, or ended from
  outside by a termination signal. The source installs no signal handler, so a
  termination signal ends the process where it stands: nothing is raised, no
  \<^verbatim>\<open>finally\<close> block runs and no further call is made.
\<close>

datatype 'a ending = Running | Exited "'a outcome" | Terminated world

text \<open>
  Whether a termination signal arrives while the process sleeps in the idle loop is not
  decided by the program: it is a parameter, a function of the calls made so far.
\<close>

type_synonym signals = "call list \<Rightarrow> bool"

text \<open>The \<^verbatim>\<open>with gpio_context(...)\<close> statement around a body.\<close>

definition gpio_context ::
  "faults \<Rightarrow> OverallModel \<Rightarrow> (world \<Rightarrow> unit ending) \<Rightarrow> world \<Rightarrow> unit ending" where
  "gpio_context flt physical_config body w =
     (case init_gpio flt physical_config w of
        (Inl e, w') \<Rightarrow> Exited (finally_close_gpio (Inl e, w'))
      | (Inr u, w') \<Rightarrow>
        (case body w' of
           Running \<Rightarrow> Running
         | Exited rw \<Rightarrow> Exited (finally_close_gpio rw)
         | Terminated w'' \<Rightarrow> Terminated w''))"

text \<open>
  \<^verbatim>\<open>while True: time.sleep(300); logger.debug("Still alive...")\<close>. The loop has no
  exit of its own: it ends when the sleep raises (an interrupt delivered as an exception)
  or when a termination signal ends the process during the sleep. The registered
  callbacks run on the GPIO facility's own delivery context, not in this loop.
\<close>

fun armed_loop :: "faults \<Rightarrow> signals \<Rightarrow> nat \<Rightarrow> world \<Rightarrow> unit ending" where
  "armed_loop flt sig 0 w = Running"
| "armed_loop flt sig (Suc n) w =
     (if sig (events w) then Terminated (record_call (Time_sleep 300000) w)
      else
        (case time_sleep flt 300000 w of
           (Inl e, w') \<Rightarrow> Exited (Inl e, w')
         | (Inr u, w') \<Rightarrow> armed_loop flt sig n (record_call (Log DEBUG StillAlive) w')))"

definition main :: "faults \<Rightarrow> signals \<Rightarrow> nat \<Rightarrow> OverallModel \<Rightarrow> world \<Rightarrow> unit ending" where
  "main flt sig fuel config w =
     (case post_to_influxdb_and_flash_led_callback flt config w of
        (Inl e, w') \<Rightarrow> Exited (Inl e, w')
      | (Inr button_callback, w') \<Rightarrow> gpio_context flt config (armed_loop flt sig fuel) w')"

text \<open>The \<^verbatim>\<open>__main__\<close> block.\<close>

definition script :: "faults \<Rightarrow> signals \<Rightarrow> nat \<Rightarrow> RawConfig \<Rightarrow> world \<Rightarrow> unit ending" where
  "script flt sig fuel raw_cfg w =
     (case setup_logging flt w of
        (Inl e, w') \<Rightarrow> Exited (Inl e, w')
      | (Inr u, w') \<Rightarrow>
        (case load_config_from_file flt ''config.yaml'' raw_cfg w' of
           (Inl e, w'') \<Rightarrow> Exited (Inl e, w'')
         | (Inr cfg, w'') \<Rightarrow> main flt sig fuel cfg w''))"

definition initial_world :: world where
  "initial_world = \<lparr>events = [], gpio_mode = None, channels = [], listeners = []\<rparr>"

section \<open>Observing a run\<close>

text \<open>The calls made between two worlds of one run.\<close>

definition new_events :: "world \<Rightarrow> world \<Rightarrow> call list" where
  "new_events w w' = drop (length (events w)) (events w')"

fun is_write :: "call \<Rightarrow> bool" where
  "is_write (Write_points cl ms) = True"
| "is_write c = False"

fun is_client_setup :: "call \<Rightarrow> bool" where
  "is_client_setup (New_InfluxDBClient d) = True"
| "is_client_setup (Create_database d) = True"
| "is_client_setup c = False"

fun is_gpio :: "call \<Rightarrow> bool" where
  "is_gpio (GPIO_setmode m) = True"
| "is_gpio (GPIO_setup p d pud) = True"
| "is_gpio (GPIO_add_event_detect p e b bt) = True"
| "is_gpio (GPIO_output p l) = True"
| "is_gpio GPIO_cleanup = True"
| "is_gpio c = False"

fun is_setmode :: "call \<Rightarrow> bool" where
  "is_setmode (GPIO_setmode m) = True"
| "is_setmode c = False"

text \<open>
  The instants at which the handler ran, read off the submitted points: each run of the
  handler stamps its point with the instant it read from the clock.
\<close>

fun accepted_instants :: "call list \<Rightarrow> int list" where
  "accepted_instants [] = []"
| "accepted_instants (Write_points cl ms # cs) = map m_time ms @ accepted_instants cs"
| "accepted_instants (c # cs) = accepted_instants cs"

text \<open>What the driver is asked for when a listener is armed.\<close>

fun armed_as :: "int \<Rightarrow> call \<Rightarrow> bool" where
  "armed_as bt (GPIO_add_event_detect p e b bt') = (p = ButtonModel.pin b \<and> e = RISING \<and> bt' = bt)"
| "armed_as bt c = True"

text \<open>A program only appends calls, all of one kind, to the record of calls.\<close>

definition only_emits :: "(call \<Rightarrow> bool) \<Rightarrow> (world \<Rightarrow> 'a outcome) \<Rightarrow> bool" where
  "only_emits Q p = (\<forall>w. \<exists>new. events (snd (p w)) = events w @ new \<and> list_all Q new)"

text \<open>The point a press of \<open>button\<close> at instant \<open>now\<close> submits, and the log lines that precede it.\<close>

definition point_of :: "InfluxdbModel \<Rightarrow> ButtonModel \<Rightarrow> int \<Rightarrow> measurement" where
  "point_of c button now =
     Measurement (measurement_name c) [(ButtonModel.label button, button_value button)] now"

definition press_log :: "ButtonModel \<Rightarrow> int \<Rightarrow> call list" where
  "press_log button p =
     Log INFO (ButtonPressed (ButtonModel.label button) p)
       # (if p \<noteq> ButtonModel.pin button
          then [Log ERROR (CallbackGotEventFor (ButtonModel.pin button) p)] else [])"

definition flash_calls :: "LedModel \<Rightarrow> call list" where
  "flash_calls l =
     [Log DEBUG TurningLedOn, GPIO_output (LedModel.pin l) HIGH, Time_sleep (flash_time_ms l),
      GPIO_output (LedModel.pin l) LOW, Log DEBUG TurnedLedOff]"

text \<open>
  The end-to-end scenario of the specification: one button on pin 5, the indicator on
  pin 6, bouncetime 200 ms.
\<close>

definition happy :: ButtonModel where
  "happy = ButtonModel 5 ''happy'' 1"

definition scenario :: OverallModel where
  "scenario =
     OverallModel (Some [happy]) (Some (LedModel 6 200)) 200
       (Some (InfluxdbModel ''mood'' ''pi_mood''))"

text \<open>The same deployment with a 10 ms flash, so that a run of the handler is over well
  within the bouncetime.\<close>

definition brisk :: OverallModel where
  "brisk =
     OverallModel (Some [happy]) (Some (LedModel 6 10)) 200
       (Some (InfluxdbModel ''mood'' ''pi_mood''))"

text \<open>The handler that startup builds for a deployment whose store section is \<open>c\<close>.\<close>

definition built_handler :: "faults \<Rightarrow> OverallModel \<Rightarrow> InfluxdbModel \<Rightarrow> handler" where
  "built_handler flt config c =
     influxdb_and_flash_led_callback flt config
       (influxdb_callback flt (Some c) (InfluxDBClient (database_name c)))"

text \<open>The world once startup has armed the listeners, from an empty one.\<close>

definition armed_world :: "faults \<Rightarrow> OverallModel \<Rightarrow> world" where
  "armed_world flt config =
     snd (init_gpio flt config
            (snd (post_to_influxdb_and_flash_led_callback flt config initial_world)))"

text \<open>A time-series store that refuses every write, and one that cannot be reached at all.\<close>

definition write_refused :: faults where
  "write_refused h c = (if is_write c then Some ''write refused'' else None)"

fun store_down :: faults where
  "store_down h (Create_database d) = Some ''connection refused''"
| "store_down h c = None"

text \<open>No termination signal ever arrives; one arrives in the first sleep of the idle loop.\<close>

definition never_signalled :: signals where
  "never_signalled h = False"

definition signalled_at_once :: signals where
  "signalled_at_once h = True"

text \<open>An interrupt, delivered as an exception, in the first sleep of the idle loop.\<close>

definition interrupted :: faults where
  "interrupted h c = (if c = Time_sleep 300000 then Some ''KeyboardInterrupt'' else None)"

text \<open>
  The calls of a whole run of the scenario up to and including the first sleep of the idle
  loop, the world if a termination signal ends the process there, and the calls of the
  whole run if that sleep is interrupted by an exception instead.
\<close>

definition armed_run :: "call list" where
  "armed_run =
     [Logging_basicConfig, Open_file ''config.yaml'', Yaml_safe_load,
      Log INFO (LoadedConfiguration scenario),
      New_InfluxDBClient ''mood'', Create_database ''mood'',
      GPIO_setmode BOARD, GPIO_setup 5 IN (Some PUD_DOWN),
      GPIO_add_event_detect 5 RISING happy 200, GPIO_setup 6 OUT None,
      GPIO_output 6 LOW, Log INFO GpioInitComplete, Time_sleep 300000]"

definition terminated_world :: world where
  "terminated_world =
     \<lparr>events = armed_run, gpio_mode = Some BOARD, channels = [(5, IN), (6, OUT)],
      listeners = [(5, happy, 200)]\<rparr>"

definition interrupted_run :: "call list" where
  "interrupted_run = armed_run @ [Log INFO ClosingGpio, GPIO_cleanup]"

text \<open>A body of the \<^verbatim>\<open>with\<close> statement that returns at once.\<close>

definition returns_at_once :: "world \<Rightarrow> unit ending" where
  "returns_at_once w = Exited (Inr (), w)"

text \<open>A deployment whose two buttons share pin 5.\<close>

definition sad :: ButtonModel where
  "sad = ButtonModel 5 ''sad'' 0"

definition twins :: OverallModel where
  "twins =
     OverallModel (Some [happy, sad]) (Some (LedModel 6 200)) 200
       (Some (InfluxdbModel ''mood'' ''pi_mood''))"

text \<open>
  A configuration file with the buttons and the indicator but no \<^verbatim>\<open>influxdb\<close>
  section, and an empty one.
\<close>

definition no_store :: RawConfig where
  "no_store =
     RawConfig (Some [RawButton (Some 5) (Some ''happy'') (Some 1)]) (Some (RawLed (Some 6) None))
       None None"

definition empty_file :: RawConfig where
  "empty_file = RawConfig None None None None"

fun is_client_new :: "call \<Rightarrow> bool" where
  "is_client_new (New_InfluxDBClient d) = True"
| "is_client_new c = False"

text \<open>Every exception a program raises is of one kind.\<close>

definition raises_only :: "(exn \<Rightarrow> bool) \<Rightarrow> (world \<Rightarrow> 'a outcome) \<Rightarrow> bool" where
  "raises_only P p = (\<forall>w e. fst (p w) = Inl e \<longrightarrow> P e)"

text \<open>A program leaves the numbering mode as it found it.\<close>

definition keeps_mode :: "(world \<Rightarrow> 'a outcome) \<Rightarrow> bool" where
  "keeps_mode p = (\<forall>w. gpio_mode (snd (p w)) = gpio_mode w)"

text \<open>The part of \<^verbatim>\<open>init_gpio\<close> that follows \<^verbatim>\<open>GPIO.setmode\<close>.\<close>

definition after_setmode :: "faults \<Rightarrow> OverallModel \<Rightarrow> world \<Rightarrow> unit outcome" where
  "after_setmode flt physical_config =
       (case buttons physical_config of
          None \<Rightarrow> raise TypeError
        | Some bs \<Rightarrow>
          andthen
            (for_each
               (\<lambda>button.
                  andthen (GPIO_setup_call flt (ButtonModel.pin button) IN (Some PUD_DOWN))
                    (GPIO_add_event_detect_call flt (ButtonModel.pin button) RISING button
                       (bouncetime physical_config)))
               bs)
            (case led physical_config of
               None \<Rightarrow> raise AttributeError
             | Some l \<Rightarrow>
               andthen (GPIO_setup_call flt (LedModel.pin l) OUT None)
                 (andthen (GPIO_output_call flt (LedModel.pin l) LOW)
                    (logger INFO GpioInitComplete))))"

text \<open>The raw configuration that spells out every field of a validated one.\<close>

definition raw_of_button :: "ButtonModel \<Rightarrow> RawButton" where
  "raw_of_button b =
     RawButton (Some (ButtonModel.pin b)) (Some (ButtonModel.label b)) (Some (button_value b))"

definition raw_of_led :: "LedModel \<Rightarrow> RawLed" where
  "raw_of_led l = RawLed (Some (LedModel.pin l)) (Some (flash_time_ms l))"

definition raw_of_influxdb :: "InfluxdbModel \<Rightarrow> RawInfluxdb" where
  "raw_of_influxdb i = RawInfluxdb (Some (database_name i)) (Some (measurement_name i))"

definition raw_of :: "OverallModel \<Rightarrow> RawConfig" where
  "raw_of cfg =
     RawConfig (map_option (map raw_of_button) (buttons cfg)) (map_option raw_of_led (led cfg))
       (Some (bouncetime cfg)) (map_option raw_of_influxdb (influxdb cfg))"

section \<open>Calls made by the parts of the program\<close>

lemma new_events_append: "events w' = events w @ new \<Longrightarrow> new_events w w' = new"
  by (simp add: new_events_def)

lemma only_emitsD:
  "only_emits Q p \<Longrightarrow> \<exists>new. events (snd (p w)) = events w @ new \<and> list_all Q new"
  by (simp add: only_emits_def)

lemma only_emits_weaken:
  "only_emits Q p \<Longrightarrow> (\<And>c. Q c \<Longrightarrow> R c) \<Longrightarrow> only_emits R p"
  unfolding only_emits_def list_all_iff by metis

lemma only_emits_extcall:
  assumes "Q c" and "\<And>w. events (eff w) = events w"
  shows "only_emits Q (extcall flt c eff)"
  using assms by (auto simp: only_emits_def extcall_def record_call_def split: option.splits)

lemma only_emits_logger: "Q (Log s m) \<Longrightarrow> only_emits Q (logger s m)"
  by (simp add: only_emits_def logger_def record_call_def)

lemma only_emits_raise: "only_emits Q (raise e)"
  by (simp add: only_emits_def raise_def)

lemma only_emits_skip: "only_emits Q skip"
  by (simp add: only_emits_def skip_def)

lemma only_emits_andthen:
  assumes p: "only_emits Q p" and q: "only_emits Q q"
  shows "only_emits Q (andthen p q)"
  unfolding only_emits_def
proof (intro allI)
  fix w
  obtain n1 where n1: "events (snd (p w)) = events w @ n1" "list_all Q n1"
    using only_emitsD [OF p] by blast
  show "\<exists>new. events (snd (andthen p q w)) = events w @ new \<and> list_all Q new"
  proof (cases "fst (p w)")
    case (Inl e)
    then have "snd (andthen p q w) = snd (p w)"
      by (cases "p w") (simp add: andthen_def)
    with n1 show ?thesis by auto
  next
    case (Inr u)
    then have eq: "snd (andthen p q w) = snd (q (snd (p w)))"
      by (cases "p w") (simp add: andthen_def)
    obtain n2 where n2: "events (snd (q (snd (p w)))) = events (snd (p w)) @ n2" "list_all Q n2"
      using only_emitsD [OF q] by blast
    from eq n1 n2 have "events (snd (andthen p q w)) = events w @ (n1 @ n2) \<and> list_all Q (n1 @ n2)"
      by simp
    then show ?thesis by blast
  qed
qed

lemma for_each_andthen: "for_each f (x # xs) = andthen (f x) (for_each f xs)"
  by (rule ext) (simp add: andthen_def)

lemma for_each_Nil: "for_each f [] = skip"
  by (rule ext) (simp add: skip_def)

lemma only_emits_for_each:
  assumes "\<And>x. only_emits Q (f x)"
  shows "only_emits Q (for_each f xs)"
proof (induction xs)
  case Nil
  show ?case by (simp add: for_each_Nil only_emits_skip)
next
  case (Cons x xs)
  show ?case unfolding for_each_andthen
    by (rule only_emits_andthen [OF assms Cons.IH])
qed

lemma only_emits_GPIO_setmode: "Q (GPIO_setmode m) \<Longrightarrow> only_emits Q (GPIO_setmode_call flt m)"
  unfolding GPIO_setmode_call_def by (rule only_emits_extcall) simp_all

lemma only_emits_GPIO_setup: "Q (GPIO_setup p d pud) \<Longrightarrow> only_emits Q (GPIO_setup_call flt p d pud)"
  by (simp add: only_emits_def GPIO_setup_call_def extcall_def record_call_def split: option.splits)

lemma only_emits_GPIO_add_event_detect:
  "Q (GPIO_add_event_detect p e b bt) \<Longrightarrow> only_emits Q (GPIO_add_event_detect_call flt p e b bt)"
  unfolding GPIO_add_event_detect_call_def by (rule only_emits_extcall) simp_all

lemma only_emits_GPIO_output: "Q (GPIO_output p l) \<Longrightarrow> only_emits Q (GPIO_output_call flt p l)"
  unfolding GPIO_output_call_def by (rule only_emits_extcall) simp_all

lemma only_emits_time_sleep: "Q (Time_sleep ms) \<Longrightarrow> only_emits Q (time_sleep flt ms)"
  unfolding time_sleep_def by (simp add: only_emits_raise only_emits_extcall)

lemma only_emits_flash_led:
  assumes "\<And>s m. Q (Log s m)" "\<And>p l. Q (GPIO_output p l)" "\<And>ms. Q (Time_sleep ms)"
  shows "only_emits Q (flash_led flt led_model)"
  unfolding flash_led_def
  by (cases led_model)
    (simp_all add: assms only_emits_andthen only_emits_logger only_emits_raise
      only_emits_GPIO_output only_emits_time_sleep)

lemma only_emits_init_gpio:
  assumes "\<And>s m. Q (Log s m)" "\<And>c. is_gpio c \<Longrightarrow> c \<noteq> GPIO_cleanup \<Longrightarrow> armed_as (bouncetime cfg) c \<Longrightarrow> Q c"
  shows "only_emits Q (init_gpio flt cfg)"
  unfolding init_gpio_def
  by (cases "buttons cfg"; cases "led cfg")
    (simp_all add: assms only_emits_andthen only_emits_logger only_emits_raise only_emits_for_each
      only_emits_GPIO_output only_emits_GPIO_setup only_emits_GPIO_setmode only_emits_GPIO_add_event_detect)

section \<open>One press\<close>

lemma influxdb_callback_run:
  "influxdb_callback flt (Some c) cl button now w =
     (let m = Measurement (measurement_name c)
                [(ButtonModel.label button, button_value button)] now
      in case flt (events w @ [Log DEBUG (UploadingMeasurement m)]) (Write_points cl [m]) of
           Some msg \<Rightarrow>
             (Inl (LibraryError msg),
              w\<lparr>events := events w @ [Log DEBUG (UploadingMeasurement m), Write_points cl [m]]\<rparr>)
         | None \<Rightarrow>
             (Inr (),
              w\<lparr>events := events w @ [Log DEBUG (UploadingMeasurement m), Write_points cl [m],
                                      Log DEBUG InfluxdbResponse]\<rparr>))"
  by (simp add: influxdb_callback_def Let_def andthen_def logger_def extcall_def record_call_def
      split: option.splits)

lemma flash_led_returns:
  assumes "flash_led flt led_model w = (Inr u, w')"
  shows "\<exists>l. led_model = Some l \<and> 0 \<le> flash_time_ms l \<and>
           w' = w\<lparr>events := events w @ [Log DEBUG TurningLedOn, GPIO_output (LedModel.pin l) HIGH,
                  Time_sleep (flash_time_ms l), GPIO_output (LedModel.pin l) LOW,
                  Log DEBUG TurnedLedOff]\<rparr>"
  using assms
  by (cases led_model)
    (auto simp: flash_led_def andthen_def logger_def extcall_def record_call_def raise_def
      GPIO_output_call_def time_sleep_def split: option.splits if_splits)

lemma handler_calls:
  fixes c button now cl
  defines "m \<equiv> Measurement (measurement_name c)
                [(ButtonModel.label button, button_value button)] now"
  assumes Q: "\<And>s m. Q (Log s m)" "\<And>p l. Q (GPIO_output p l)" "\<And>ms. Q (Time_sleep ms)"
  shows "\<exists>post. events (snd (influxdb_and_flash_led_callback flt config
                    (influxdb_callback flt (Some c) cl) button now w))
               = events w @ [Log DEBUG (UploadingMeasurement m), Write_points cl [m]] @ post
             \<and> list_all Q post"
proof (cases "flt (events w @ [Log DEBUG (UploadingMeasurement m)]) (Write_points cl [m])")
  case (Some msg)
  then have "events (snd (influxdb_and_flash_led_callback flt config
                    (influxdb_callback flt (Some c) cl) button now w))
               = events w @ [Log DEBUG (UploadingMeasurement m), Write_points cl [m]] @ []"
    by (simp add: influxdb_and_flash_led_callback_def andthen_def influxdb_callback_run m_def Let_def)
  moreover have "list_all Q []" by simp
  ultimately show ?thesis by blast
next
  case None
  define w1 where "w1 = w\<lparr>events := events w @ [Log DEBUG (UploadingMeasurement m), Write_points cl [m],
                                      Log DEBUG InfluxdbResponse]\<rparr>"
  from None have run: "influxdb_and_flash_led_callback flt config
                    (influxdb_callback flt (Some c) cl) button now w = flash_led flt (led config) w1"
    by (simp add: influxdb_and_flash_led_callback_def andthen_def influxdb_callback_run m_def w1_def Let_def)
  obtain new where new: "events (snd (flash_led flt (led config) w1)) = events w1 @ new" "list_all Q new"
    using only_emitsD [OF only_emits_flash_led [of Q], OF Q] by blast
  have "events (snd (flash_led flt (led config) w1))
          = events w @ [Log DEBUG (UploadingMeasurement m), Write_points cl [m]]
              @ (Log DEBUG InfluxdbResponse # new)"
    using new(1) by (simp add: w1_def)
  moreover have "list_all Q (Log DEBUG InfluxdbResponse # new)"
    using new(2) Q(1) by simp
  ultimately show ?thesis unfolding run by blast
qed

lemma callback_for_button_run:
  "callback_for_button button hdl p now w =
     hdl button now
       (w\<lparr>events := events w @ Log INFO (ButtonPressed (ButtonModel.label button) p)
            # (if p \<noteq> ButtonModel.pin button
               then [Log ERROR (CallbackGotEventFor (ButtonModel.pin button) p)] else [])\<rparr>)"
  by (simp add: callback_for_button_def andthen_def logger_def record_call_def skip_def)

lemma handler_construction:
  assumes "post_to_influxdb_and_flash_led_callback flt config w = (Inr hdl, w')"
  shows "\<exists>c. influxdb config = Some c
     \<and> hdl = influxdb_and_flash_led_callback flt config
              (influxdb_callback flt (Some c) (InfluxDBClient (database_name c)))
     \<and> w' = w\<lparr>events := events w @ [New_InfluxDBClient (database_name c),
                                      Create_database (database_name c)]\<rparr>"
  using assms
  by (auto simp: post_to_influxdb_and_flash_led_callback_def post_to_influxdb_callback_def
      get_influxdb_client_def andthen_def extcall_def record_call_def
      split: option.splits prod.splits sum.splits)

lemma handler_returns:
  assumes "influxdb_and_flash_led_callback flt config (influxdb_callback flt (Some c) cl)
             button now w = (Inr u, w')"
  shows "\<exists>l. led config = Some l \<and> 0 \<le> flash_time_ms l \<and>
           w' = w\<lparr>events := events w @ [Log DEBUG (UploadingMeasurement (point_of c button now)),
                    Write_points cl [point_of c button now], Log DEBUG InfluxdbResponse]
                    @ flash_calls l\<rparr>"
proof (cases "flt (events w @ [Log DEBUG (UploadingMeasurement (point_of c button now))])
                (Write_points cl [point_of c button now])")
  case (Some msg)
  with assms show ?thesis
    by (simp add: influxdb_and_flash_led_callback_def andthen_def influxdb_callback_run
        Let_def point_of_def)
next
  case None
  with assms have "flash_led flt (led config)
      (w\<lparr>events := events w @ [Log DEBUG (UploadingMeasurement (point_of c button now)),
                    Write_points cl [point_of c button now], Log DEBUG InfluxdbResponse]\<rparr>)
      = (Inr u, w')"
    by (simp add: influxdb_and_flash_led_callback_def andthen_def influxdb_callback_run
        Let_def point_of_def)
  from flash_led_returns [OF this] show ?thesis
    by (auto simp: flash_calls_def)
qed

lemma accepted_instants_append:
  "accepted_instants (xs @ ys) = accepted_instants xs @ accepted_instants ys"
  by (induction xs rule: accepted_instants.induct) simp_all

lemma accepted_instants_no_write:
  "list_all (\<lambda>c. \<not> is_write c) xs \<Longrightarrow> accepted_instants xs = []"
  by (induction xs rule: accepted_instants.induct) simp_all

lemma filter_no_write: "list_all (\<lambda>c. \<not> is_write c) xs \<Longrightarrow> filter is_write xs = []"
  by (induction xs) simp_all

lemma press_log_no_write: "list_all (\<lambda>c. \<not> is_write c) (press_log button p)"
  by (simp add: press_log_def)

lemma callback_calls:
  "\<exists>post. events (snd (callback_for_button button
                  (influxdb_and_flash_led_callback flt config (influxdb_callback flt (Some c) cl))
                  p now w))
            = events w @ press_log button p
                @ [Log DEBUG (UploadingMeasurement (point_of c button now)),
                   Write_points cl [point_of c button now]] @ post
          \<and> list_all (\<lambda>c. \<not> is_write c \<and> \<not> is_client_setup c) post"
proof -
  define w0 where "w0 = w\<lparr>events := events w @ press_log button p\<rparr>"
  obtain post where post:
    "events (snd (influxdb_and_flash_led_callback flt config (influxdb_callback flt (Some c) cl)
                    button now w0))
       = events w0 @ [Log DEBUG (UploadingMeasurement (point_of c button now)),
                      Write_points cl [point_of c button now]] @ post"
    "list_all (\<lambda>c. \<not> is_write c \<and> \<not> is_client_setup c) post"
    using handler_calls [of "\<lambda>c. \<not> is_write c \<and> \<not> is_client_setup c" flt config c cl button now w0]
    by (auto simp: point_of_def)
  then show ?thesis
    unfolding callback_for_button_run by (auto simp: w0_def press_log_def)
qed

section \<open>Claims about one press\<close>

lemma scenario_handler:
  "post_to_influxdb_and_flash_led_callback no_faults scenario initial_world =
     (Inr (influxdb_and_flash_led_callback no_faults scenario
             (influxdb_callback no_faults (Some (InfluxdbModel ''mood'' ''pi_mood''))
                (InfluxDBClient ''mood''))),
      initial_world\<lparr>events := [New_InfluxDBClient ''mood'', Create_database ''mood'']\<rparr>)"
  by (simp add: post_to_influxdb_and_flash_led_callback_def post_to_influxdb_callback_def
      get_influxdb_client_def andthen_def extcall_def record_call_def no_faults_def scenario_def
      initial_world_def)

text \<open>
  C6. Every run of the registered callback submits exactly one point: the configured
  measurement name, the single field \<open>label \<mapsto> value\<close> of the button, and the instant
  read from the clock on that run. This holds whatever the collaborators do.
\<close>

theorem press_submits_one_point:
  assumes "post_to_influxdb_and_flash_led_callback flt config w0 = (Inr hdl, w1)"
  shows "\<exists>c. influxdb config = Some c \<and>
           filter is_write (new_events w (snd (callback_for_button button hdl p now w)))
             = [Write_points (InfluxDBClient (database_name c))
                  [Measurement (measurement_name c)
                     [(ButtonModel.label button, button_value button)] now]]"
proof -
  obtain c where c: "influxdb config = Some c"
    and hdl: "hdl = influxdb_and_flash_led_callback flt config
                (influxdb_callback flt (Some c) (InfluxDBClient (database_name c)))"
    using handler_construction [OF assms] by blast
  obtain post where post:
    "events (snd (callback_for_button button hdl p now w))
       = events w @ press_log button p
           @ [Log DEBUG (UploadingMeasurement (point_of c button now)),
              Write_points (InfluxDBClient (database_name c)) [point_of c button now]] @ post"
    "list_all (\<lambda>c. \<not> is_write c \<and> \<not> is_client_setup c) post"
    unfolding hdl using callback_calls by blast
  from post(2) have "list_all (\<lambda>c. \<not> is_write c) post"
    by (simp add: list_all_iff)
  then have "filter is_write post = []" by (rule filter_no_write)
  moreover have "filter is_write (press_log button p) = []"
    by (rule filter_no_write [OF press_log_no_write])
  ultimately have "filter is_write (new_events w (snd (callback_for_button button hdl p now w)))
      = [Write_points (InfluxDBClient (database_name c)) [point_of c button now]]"
    using new_events_append [OF post(1)] by simp
  with c show ?thesis by (simp add: point_of_def)
qed

theorem press_submits_one_point_witness:
  "filter is_write (new_events initial_world
      (snd (callback_for_button happy
              (influxdb_and_flash_led_callback no_faults scenario
                 (influxdb_callback no_faults (Some (InfluxdbModel ''mood'' ''pi_mood''))
                    (InfluxDBClient ''mood'')))
              5 0 initial_world)))
     = [Write_points (InfluxDBClient ''mood'') [Measurement ''pi_mood'' [(''happy'', 1)] 0]]"
proof -
  obtain c where c: "influxdb scenario = Some c"
    and eq: "filter is_write (new_events initial_world
      (snd (callback_for_button happy
              (influxdb_and_flash_led_callback no_faults scenario
                 (influxdb_callback no_faults (Some (InfluxdbModel ''mood'' ''pi_mood''))
                    (InfluxDBClient ''mood'')))
              5 0 initial_world)))
     = [Write_points (InfluxDBClient (database_name c))
                  [Measurement (measurement_name c)
                     [(ButtonModel.label happy, button_value happy)] 0]]"
    using press_submits_one_point [OF scenario_handler, of initial_world happy 5 0] by blast
  from c have "c = InfluxdbModel ''mood'' ''pi_mood''"
    by (simp add: scenario_def)
  moreover have "ButtonModel.label happy = ''happy''" "button_value happy = 1"
    by (simp_all add: happy_def)
  ultimately show ?thesis
    unfolding eq by simp
qed

text \<open>
  C5. On one run of the composed handler the submission is the first collaborator call
  (only the debug line announcing it comes before), so it precedes every change of the
  indicator output; and when the run returns, the flash followed it on that same run.
\<close>

theorem upload_before_flash:
  assumes "post_to_influxdb_and_flash_led_callback flt config w0 = (Inr hdl, w1)"
  shows "\<exists>c post. influxdb config = Some c \<and>
           new_events w (snd (hdl button now w))
             = [Log DEBUG (UploadingMeasurement (point_of c button now)),
                Write_points (InfluxDBClient (database_name c)) [point_of c button now]] @ post
           \<and> (fst (hdl button now w) = Inr () \<longrightarrow>
                (\<exists>l. led config = Some l \<and> post = Log DEBUG InfluxdbResponse # flash_calls l))"
proof -
  obtain c where c: "influxdb config = Some c"
    and hdl: "hdl = influxdb_and_flash_led_callback flt config
                (influxdb_callback flt (Some c) (InfluxDBClient (database_name c)))"
    using handler_construction [OF assms] by blast
  obtain post where post:
    "events (snd (hdl button now w))
       = events w @ [Log DEBUG (UploadingMeasurement (point_of c button now)),
              Write_points (InfluxDBClient (database_name c)) [point_of c button now]] @ post"
    unfolding hdl
    using handler_calls [of "\<lambda>c. True" flt config c "InfluxDBClient (database_name c)" button now w]
    by (auto simp: point_of_def)
  have "\<exists>l. led config = Some l \<and> post = Log DEBUG InfluxdbResponse # flash_calls l"
    if "fst (hdl button now w) = Inr ()"
  proof -
    from that have "hdl button now w = (Inr (), snd (hdl button now w))"
      by (cases "hdl button now w") simp
    from handler_returns [OF this [unfolded hdl]] obtain l where l: "led config = Some l"
      and ev: "events (snd (hdl button now w))
         = events w @ [Log DEBUG (UploadingMeasurement (point_of c button now)),
              Write_points (InfluxDBClient (database_name c)) [point_of c button now],
              Log DEBUG InfluxdbResponse] @ flash_calls l"
      unfolding hdl by auto
    from ev post have "post = Log DEBUG InfluxdbResponse # flash_calls l" by simp
    with l show ?thesis by blast
  qed
  with c new_events_append [OF post] show ?thesis by blast
qed

lemmas run_defs = andthen_def extcall_def record_call_def logger_def raise_def skip_def
  GPIO_setmode_call_def GPIO_setup_call_def GPIO_add_event_detect_call_def GPIO_output_call_def
  GPIO_cleanup_call_def time_sleep_def Let_def

lemma built_handler_scenario:
  "post_to_influxdb_and_flash_led_callback no_faults scenario initial_world =
     (Inr (built_handler no_faults scenario (InfluxdbModel ''mood'' ''pi_mood'')),
      initial_world\<lparr>events := [New_InfluxDBClient ''mood'', Create_database ''mood'']\<rparr>)"
  using scenario_handler by (simp add: built_handler_def)

lemma scenario_press:
  "built_handler no_faults scenario (InfluxdbModel ''mood'' ''pi_mood'') happy 0 initial_world =
     (Inr (), initial_world\<lparr>events :=
        [Log DEBUG (UploadingMeasurement (Measurement ''pi_mood'' [(''happy'', 1)] 0)),
         Write_points (InfluxDBClient ''mood'') [Measurement ''pi_mood'' [(''happy'', 1)] 0],
         Log DEBUG InfluxdbResponse, Log DEBUG TurningLedOn, GPIO_output 6 HIGH, Time_sleep 200,
         GPIO_output 6 LOW, Log DEBUG TurnedLedOff]\<rparr>)"
  by (simp add: built_handler_def influxdb_and_flash_led_callback_def influxdb_callback_def
      flash_led_def run_defs no_faults_def scenario_def happy_def initial_world_def)

theorem upload_before_flash_witness:
  "fst (built_handler no_faults scenario (InfluxdbModel ''mood'' ''pi_mood'') happy 0 initial_world)
     = Inr ()
   \<and> new_events initial_world
       (snd (built_handler no_faults scenario (InfluxdbModel ''mood'' ''pi_mood'') happy 0
               initial_world))
     = [Log DEBUG (UploadingMeasurement (Measurement ''pi_mood'' [(''happy'', 1)] 0)),
        Write_points (InfluxDBClient ''mood'') [Measurement ''pi_mood'' [(''happy'', 1)] 0],
        Log DEBUG InfluxdbResponse, Log DEBUG TurningLedOn, GPIO_output 6 HIGH, Time_sleep 200,
        GPIO_output 6 LOW, Log DEBUG TurnedLedOff]"
proof -
  have ret: "fst (built_handler no_faults scenario (InfluxdbModel ''mood'' ''pi_mood'') happy 0
                    initial_world) = Inr ()"
    by (simp add: scenario_press)
  obtain c post l where "influxdb scenario = Some c"
    and "new_events initial_world
       (snd (built_handler no_faults scenario (InfluxdbModel ''mood'' ''pi_mood'') happy 0
               initial_world))
      = [Log DEBUG (UploadingMeasurement (point_of c happy 0)),
         Write_points (InfluxDBClient (database_name c)) [point_of c happy 0]] @ post"
    and "led scenario = Some l" and "post = Log DEBUG InfluxdbResponse # flash_calls l"
    using upload_before_flash [OF built_handler_scenario, of initial_world happy 0] ret by blast
  moreover from this have "c = InfluxdbModel ''mood'' ''pi_mood''" "l = LedModel 6 200"
    by (simp_all add: scenario_def)
  ultimately show ?thesis
    using ret by (simp add: point_of_def flash_calls_def happy_def)
qed

lemma built_handler_construction:
  assumes "post_to_influxdb_and_flash_led_callback flt config w = (Inr hdl, w')"
    and "influxdb config = Some c"
  shows "hdl = built_handler flt config c"
  using handler_construction [OF assms(1)] assms(2) by (auto simp: built_handler_def)

text \<open>
  C2. The claim fails: the program has no exception handling. With a store that
  refuses the write, the press on pin 5 ends in the store's exception, which leaves the
  registered callback; nothing is logged at error severity and the indicator is not
  touched.
\<close>

theorem failed_upload_counterexample:
  "callback_for_button happy (built_handler write_refused scenario (InfluxdbModel ''mood'' ''pi_mood''))
     5 0 initial_world =
   (Inl (LibraryError ''write refused''),
    initial_world\<lparr>events :=
      [Log INFO (ButtonPressed ''happy'' 5),
       Log DEBUG (UploadingMeasurement (Measurement ''pi_mood'' [(''happy'', 1)] 0)),
       Write_points (InfluxDBClient ''mood'') [Measurement ''pi_mood'' [(''happy'', 1)] 0]]\<rparr>)"
  by (simp add: callback_for_button_def built_handler_def influxdb_and_flash_led_callback_def
      influxdb_callback_def flash_led_def run_defs write_refused_def scenario_def happy_def
      initial_world_def)

text \<open>
  C2, as the code has it. When the submission of an accepted press fails, the run of the
  registered callback ends there with the store's exception: the calls made are the
  press log, the debug line and the failed write, and nothing else (no error-severity
  line for the failure, no flash).
\<close>

theorem failed_upload_propagates:
  assumes "post_to_influxdb_and_flash_led_callback flt config w0 = (Inr hdl, w1)"
    and "influxdb config = Some c"
    and "flt (events w @ press_log button p
                @ [Log DEBUG (UploadingMeasurement (point_of c button now))])
           (Write_points (InfluxDBClient (database_name c)) [point_of c button now]) = Some msg"
  shows "callback_for_button button hdl p now w =
           (Inl (LibraryError msg),
            w\<lparr>events := events w @ press_log button p
                 @ [Log DEBUG (UploadingMeasurement (point_of c button now)),
                    Write_points (InfluxDBClient (database_name c)) [point_of c button now]]\<rparr>)"
proof -
  have hdl: "hdl = built_handler flt config c"
    by (rule built_handler_construction [OF assms(1,2)])
  show ?thesis
    using assms(3)
    by (simp add: hdl built_handler_def callback_for_button_run influxdb_and_flash_led_callback_def
        andthen_def influxdb_callback_run Let_def point_of_def press_log_def)
qed

lemma built_handler_write_refused:
  "post_to_influxdb_and_flash_led_callback write_refused scenario initial_world =
     (Inr (built_handler write_refused scenario (InfluxdbModel ''mood'' ''pi_mood'')),
      initial_world\<lparr>events := [New_InfluxDBClient ''mood'', Create_database ''mood'']\<rparr>)"
  by (simp add: post_to_influxdb_and_flash_led_callback_def post_to_influxdb_callback_def
      get_influxdb_client_def andthen_def extcall_def record_call_def write_refused_def scenario_def
      initial_world_def built_handler_def)

theorem failed_upload_propagates_witness:
  "fst (callback_for_button happy
          (built_handler write_refused scenario (InfluxdbModel ''mood'' ''pi_mood''))
          5 0 initial_world) = Inl (LibraryError ''write refused'')"
proof -
  have cfg: "influxdb scenario = Some (InfluxdbModel ''mood'' ''pi_mood'')"
    by (simp add: scenario_def)
  have refused: "write_refused
      (events initial_world @ press_log happy 5
         @ [Log DEBUG (UploadingMeasurement (point_of (InfluxdbModel ''mood'' ''pi_mood'') happy 0))])
      (Write_points (InfluxDBClient (database_name (InfluxdbModel ''mood'' ''pi_mood'')))
         [point_of (InfluxdbModel ''mood'' ''pi_mood'') happy 0]) = Some ''write refused''"
    by (simp add: write_refused_def)
  show ?thesis
    by (simp add: failed_upload_propagates [OF built_handler_write_refused cfg refused])
qed

section \<open>Claims about a sequence of edges\<close>

lemma callback_accepts:
  "\<exists>new. events (snd (callback_for_button button (built_handler flt config c) p now w))
            = events w @ new \<and> accepted_instants new = [now]"
proof -
  obtain post where post:
    "events (snd (callback_for_button button (built_handler flt config c) p now w))
       = events w @ press_log button p
           @ [Log DEBUG (UploadingMeasurement (point_of c button now)),
              Write_points (InfluxDBClient (database_name c)) [point_of c button now]] @ post"
    "list_all (\<lambda>c. \<not> is_write c \<and> \<not> is_client_setup c) post"
    unfolding built_handler_def using callback_calls by blast
  from post(2) have "list_all (\<lambda>c. \<not> is_write c) post"
    by (simp add: list_all_iff)
  then have "accepted_instants post = []" by (rule accepted_instants_no_write)
  moreover have "accepted_instants (press_log button p) = []"
    by (rule accepted_instants_no_write [OF press_log_no_write])
  ultimately have "accepted_instants (press_log button p
           @ [Log DEBUG (UploadingMeasurement (point_of c button now)),
              Write_points (InfluxDBClient (database_name c)) [point_of c button now]] @ post)
       = [now]"
    by (simp add: accepted_instants_append point_of_def)
  with post(1) show ?thesis by blast
qed

lemma presses_accepted:
  assumes "fst (for_each (callback_for_button button (built_handler flt config c) p) ts w) = Inr ()"
  shows "\<exists>new. events (snd (for_each (callback_for_button button (built_handler flt config c) p) ts w))
            = events w @ new \<and> accepted_instants new = ts"
  using assms
proof (induction ts arbitrary: w)
  case Nil
  then show ?case by simp
next
  case (Cons t ts)
  let ?cb = "callback_for_button button (built_handler flt config c) p"
  obtain r w' where r: "?cb t w = (r, w')" by (cases "?cb t w")
  with Cons.prems obtain u where u: "r = Inr u"
    by (cases r) simp_all
  from r u have step: "for_each ?cb (t # ts) w = for_each ?cb ts w'" by simp
  obtain n1 where n1: "events w' = events w @ n1" "accepted_instants n1 = [t]"
    using callback_accepts [of button flt config c p t w] r by auto
  from Cons.prems step have "fst (for_each ?cb ts w') = Inr ()" by simp
  from Cons.IH [OF this] obtain n2 where
    n2: "events (snd (for_each ?cb ts w')) = events w' @ n2" "accepted_instants n2 = ts"
    by blast
  from n1 n2 have "events (snd (for_each ?cb (t # ts) w)) = events w @ (n1 @ n2)
      \<and> accepted_instants (n1 @ n2) = t # ts"
    unfolding step by (simp add: accepted_instants_append)
  then show ?case by blast
qed

lemma armed_world_brisk:
  "armed_world no_faults brisk =
     \<lparr>events = [New_InfluxDBClient ''mood'', Create_database ''mood'', GPIO_setmode BOARD,
                GPIO_setup 5 IN (Some PUD_DOWN), GPIO_add_event_detect 5 RISING happy 200,
                GPIO_setup 6 OUT None, GPIO_output 6 LOW, Log INFO GpioInitComplete],
      gpio_mode = Some BOARD, channels = [(5, IN), (6, OUT)], listeners = [(5, happy, 200)]\<rparr>"
  by (simp add: armed_world_def init_gpio_def post_to_influxdb_and_flash_led_callback_def
      post_to_influxdb_callback_def get_influxdb_client_def run_defs no_faults_def brisk_def
      initial_world_def happy_def)

lemma two_presses_brisk:
  "for_each (callback_for_button happy (built_handler no_faults brisk (InfluxdbModel ''mood'' ''pi_mood'')) 5)
     [0, 50] (armed_world no_faults brisk) =
   (Inr (), (armed_world no_faults brisk)\<lparr>events := events (armed_world no_faults brisk) @
      [Log INFO (ButtonPressed ''happy'' 5),
       Log DEBUG (UploadingMeasurement (Measurement ''pi_mood'' [(''happy'', 1)] 0)),
       Write_points (InfluxDBClient ''mood'') [Measurement ''pi_mood'' [(''happy'', 1)] 0],
       Log DEBUG InfluxdbResponse, Log DEBUG TurningLedOn, GPIO_output 6 HIGH, Time_sleep 10,
       GPIO_output 6 LOW, Log DEBUG TurnedLedOff,
       Log INFO (ButtonPressed ''happy'' 5),
       Log DEBUG (UploadingMeasurement (Measurement ''pi_mood'' [(''happy'', 1)] 50)),
       Write_points (InfluxDBClient ''mood'') [Measurement ''pi_mood'' [(''happy'', 1)] 50],
       Log DEBUG InfluxdbResponse, Log DEBUG TurningLedOn, GPIO_output 6 HIGH, Time_sleep 10,
       GPIO_output 6 LOW, Log DEBUG TurnedLedOff]\<rparr>)"
  by (simp add: callback_for_button_def built_handler_def influxdb_and_flash_led_callback_def
      influxdb_callback_def flash_led_def run_defs no_faults_def brisk_def happy_def)

lemma built_handler_brisk:
  "post_to_influxdb_and_flash_led_callback no_faults brisk initial_world =
     (Inr (built_handler no_faults brisk (InfluxdbModel ''mood'' ''pi_mood'')),
      initial_world\<lparr>events := [New_InfluxDBClient ''mood'', Create_database ''mood'']\<rparr>)"
  by (simp add: post_to_influxdb_and_flash_led_callback_def post_to_influxdb_callback_def
      get_influxdb_client_def andthen_def extcall_def record_call_def no_faults_def brisk_def
      initial_world_def built_handler_def)

text \<open>
  C1. The claim fails: the program has no debounce of its own. With bouncetime 200 ms and
  the listener for pin 5 armed, two edges delivered 50 ms apart both run the handler:
  the accepted instants are 0 and 50.
\<close>

theorem debounce_counterexample:
  "accepted_instants (events (snd (for_each
       (callback_for_button happy
          (built_handler no_faults brisk (InfluxdbModel ''mood'' ''pi_mood'')) 5)
       [0, 50] (armed_world no_faults brisk)))) = [0, 50]
   \<and> bouncetime brisk = 200
   \<and> listeners (armed_world no_faults brisk) = [(5, happy, 200)]"
proof -
  have "accepted_instants (events (snd (for_each
       (callback_for_button happy
          (built_handler no_faults brisk (InfluxdbModel ''mood'' ''pi_mood'')) 5)
       [0, 50] (armed_world no_faults brisk)))) = [0, 50]"
    by (subst two_presses_brisk) (simp add: armed_world_brisk)
  moreover have "bouncetime brisk = 200"
    by (simp add: brisk_def)
  moreover have "listeners (armed_world no_faults brisk) = [(5, happy, 200)]"
    by (simp add: armed_world_brisk)
  ultimately show ?thesis by blast
qed

text \<open>
  C1, as the code has it. The registered callback runs the handler on every edge the
  driver delivers, whatever the time since the previous one: as long as no run raises,
  the accepted instants are exactly the delivered ones. The only debounce is the
  driver's: every listener is armed on its button's pin, for rising edges, with the
  configured bouncetime.
\<close>

theorem every_delivered_edge_is_accepted:
  assumes "post_to_influxdb_and_flash_led_callback flt config w0 = (Inr hdl, w1)"
    and "fst (for_each (callback_for_button button hdl p) ts w) = Inr ()"
  shows "accepted_instants
           (new_events w (snd (for_each (callback_for_button button hdl p) ts w))) = ts
         \<and> list_all (armed_as (bouncetime config)) (new_events w1 (snd (init_gpio flt config w1)))"
proof -
  obtain c where c: "influxdb config = Some c"
    using handler_construction [OF assms(1)] by blast
  have hdl: "hdl = built_handler flt config c"
    by (rule built_handler_construction [OF assms(1) c])
  obtain new where new:
    "events (snd (for_each (callback_for_button button hdl p) ts w)) = events w @ new"
    "accepted_instants new = ts"
    using presses_accepted [OF assms(2) [unfolded hdl]] unfolding hdl by blast
  have "only_emits (armed_as (bouncetime config)) (init_gpio flt config)"
    by (rule only_emits_init_gpio) simp_all
  then obtain armed where armed:
    "events (snd (init_gpio flt config w1)) = events w1 @ armed"
    "list_all (armed_as (bouncetime config)) armed"
    using only_emitsD by blast
  show ?thesis
    using new armed by (simp add: new_events_append)
qed

theorem every_delivered_edge_is_accepted_witness:
  "accepted_instants (new_events (armed_world no_faults brisk) (snd (for_each
       (callback_for_button happy
          (built_handler no_faults brisk (InfluxdbModel ''mood'' ''pi_mood'')) 5)
       [0, 50] (armed_world no_faults brisk)))) = [0, 50]"
proof -
  have ret: "fst (for_each
       (callback_for_button happy
          (built_handler no_faults brisk (InfluxdbModel ''mood'' ''pi_mood'')) 5)
       [0, 50] (armed_world no_faults brisk)) = Inr ()"
    by (subst two_presses_brisk) simp
  from every_delivered_edge_is_accepted [OF built_handler_brisk ret] show ?thesis by blast
qed

section \<open>GPIO initialisation\<close>

lemma keeps_modeD: "keeps_mode p \<Longrightarrow> gpio_mode (snd (p w)) = gpio_mode w"
  by (simp add: keeps_mode_def)

lemma keeps_mode_extcall:
  assumes "\<And>w. gpio_mode (eff w) = gpio_mode w"
  shows "keeps_mode (extcall flt c eff)"
  using assms by (simp add: keeps_mode_def extcall_def record_call_def split: option.splits)

lemma keeps_mode_logger: "keeps_mode (logger s m)"
  by (simp add: keeps_mode_def logger_def record_call_def)

lemma keeps_mode_raise: "keeps_mode (raise e)"
  by (simp add: keeps_mode_def raise_def)

lemma keeps_mode_skip: "keeps_mode skip"
  by (simp add: keeps_mode_def skip_def)

lemma keeps_mode_andthen:
  assumes p: "keeps_mode p" and q: "keeps_mode q"
  shows "keeps_mode (andthen p q)"
  unfolding keeps_mode_def
proof
  fix w
  obtain r w' where rw: "p w = (r, w')" by (cases "p w")
  then have "gpio_mode w' = gpio_mode w" using keeps_modeD [OF p, of w] by simp
  with rw keeps_modeD [OF q, of w'] show "gpio_mode (snd (andthen p q w)) = gpio_mode w"
    by (cases r) (simp_all add: andthen_def)
qed

lemma keeps_mode_for_each:
  assumes "\<And>x. keeps_mode (f x)"
  shows "keeps_mode (for_each f xs)"
proof (induction xs)
  case Nil
  show ?case by (simp add: for_each_Nil keeps_mode_skip)
next
  case (Cons x xs)
  show ?case unfolding for_each_andthen
    by (rule keeps_mode_andthen [OF assms Cons.IH])
qed

lemma keeps_mode_GPIO_setup: "keeps_mode (GPIO_setup_call flt p d pud)"
  by (simp add: keeps_mode_def GPIO_setup_call_def extcall_def record_call_def split: option.splits)

lemma keeps_mode_GPIO_add_event_detect: "keeps_mode (GPIO_add_event_detect_call flt p e b bt)"
  unfolding GPIO_add_event_detect_call_def by (rule keeps_mode_extcall) simp

lemma keeps_mode_GPIO_output: "keeps_mode (GPIO_output_call flt p l)"
  unfolding GPIO_output_call_def by (rule keeps_mode_extcall) simp

lemma init_gpio_split:
  "init_gpio flt physical_config =
     andthen (GPIO_setmode_call flt BOARD) (after_setmode flt physical_config)"
  by (simp add: init_gpio_def after_setmode_def)

lemma keeps_mode_after_setmode: "keeps_mode (after_setmode flt cfg)"
proof (cases "buttons cfg")
  case None
  then show ?thesis by (simp add: after_setmode_def keeps_mode_raise)
next
  case (Some bs)
  have loop: "keeps_mode (for_each
               (\<lambda>button.
                  andthen (GPIO_setup_call flt (ButtonModel.pin button) IN (Some PUD_DOWN))
                    (GPIO_add_event_detect_call flt (ButtonModel.pin button) RISING button
                       (bouncetime cfg))) bs)"
    by (intro keeps_mode_for_each keeps_mode_andthen keeps_mode_GPIO_setup
        keeps_mode_GPIO_add_event_detect)
  have tail: "keeps_mode (case led cfg of
               None \<Rightarrow> raise AttributeError
             | Some l \<Rightarrow>
               andthen (GPIO_setup_call flt (LedModel.pin l) OUT None)
                 (andthen (GPIO_output_call flt (LedModel.pin l) LOW)
                    (logger INFO GpioInitComplete)))"
    by (cases "led cfg")
      (simp_all add: keeps_mode_raise keeps_mode_andthen keeps_mode_GPIO_setup
        keeps_mode_GPIO_output keeps_mode_logger)
  show ?thesis
    unfolding after_setmode_def Some option.case
    by (rule keeps_mode_andthen [OF loop tail])
qed

lemma only_emits_after_setmode:
  assumes "\<And>s m. Q (Log s m)"
    "\<And>c. is_gpio c \<Longrightarrow> c \<noteq> GPIO_cleanup \<Longrightarrow> \<not> is_setmode c \<Longrightarrow> armed_as (bouncetime cfg) c \<Longrightarrow> Q c"
  shows "only_emits Q (after_setmode flt cfg)"
proof (cases "buttons cfg")
  case None
  then show ?thesis by (simp add: after_setmode_def only_emits_raise)
next
  case (Some bs)
  have q_setup: "Q (GPIO_setup p d pud)" for p d pud
    by (rule assms(2)) simp_all
  have q_detect: "Q (GPIO_add_event_detect (ButtonModel.pin b) RISING b (bouncetime cfg))" for b
    by (rule assms(2)) simp_all
  have q_output: "Q (GPIO_output p l)" for p l
    by (rule assms(2)) simp_all
  have loop: "only_emits Q (for_each
               (\<lambda>button.
                  andthen (GPIO_setup_call flt (ButtonModel.pin button) IN (Some PUD_DOWN))
                    (GPIO_add_event_detect_call flt (ButtonModel.pin button) RISING button
                       (bouncetime cfg))) bs)"
    by (intro only_emits_for_each only_emits_andthen only_emits_GPIO_setup
        only_emits_GPIO_add_event_detect q_setup q_detect)
  have tail: "only_emits Q (case led cfg of
               None \<Rightarrow> raise AttributeError
             | Some l \<Rightarrow>
               andthen (GPIO_setup_call flt (LedModel.pin l) OUT None)
                 (andthen (GPIO_output_call flt (LedModel.pin l) LOW)
                    (logger INFO GpioInitComplete)))"
    by (cases "led cfg")
      (simp_all add: only_emits_raise only_emits_andthen only_emits_GPIO_setup
        only_emits_GPIO_output only_emits_logger q_setup q_output assms(1))
  show ?thesis
    unfolding after_setmode_def Some option.case
    by (rule only_emits_andthen [OF loop tail])
qed

lemma init_gpio_run_ok:
  assumes "flt (events w) (GPIO_setmode BOARD) = None"
  shows "init_gpio flt cfg w =
           after_setmode flt cfg
             (w\<lparr>events := events w @ [GPIO_setmode BOARD], gpio_mode := Some BOARD\<rparr>)"
  using assms
  by (simp add: init_gpio_split andthen_def GPIO_setmode_call_def extcall_def record_call_def)

lemma init_gpio_run_failed:
  assumes "flt (events w) (GPIO_setmode BOARD) = Some msg"
  shows "init_gpio flt cfg w =
           (Inl (LibraryError msg), w\<lparr>events := events w @ [GPIO_setmode BOARD]\<rparr>)"
  using assms
  by (simp add: init_gpio_split andthen_def GPIO_setmode_call_def extcall_def record_call_def)

lemma init_gpio_calls:
  assumes "\<And>s m. Q (Log s m)"
    "\<And>c. is_gpio c \<Longrightarrow> c \<noteq> GPIO_cleanup \<Longrightarrow> \<not> is_setmode c \<Longrightarrow> armed_as (bouncetime cfg) c \<Longrightarrow> Q c"
  shows "\<exists>rest. events (snd (init_gpio flt cfg w)) = events w @ GPIO_setmode BOARD # rest
           \<and> list_all Q rest
           \<and> (flt (events w) (GPIO_setmode BOARD) = None \<longrightarrow>
                gpio_mode (snd (init_gpio flt cfg w)) = Some BOARD)
           \<and> (flt (events w) (GPIO_setmode BOARD) \<noteq> None \<longrightarrow> rest = [])"
proof (cases "flt (events w) (GPIO_setmode BOARD)")
  case None
  define w1 where "w1 = w\<lparr>events := events w @ [GPIO_setmode BOARD], gpio_mode := Some BOARD\<rparr>"
  have run: "init_gpio flt cfg w = after_setmode flt cfg w1"
    unfolding w1_def by (rule init_gpio_run_ok [where flt=flt and w=w, OF None])
  have "only_emits Q (after_setmode flt cfg)"
    by (rule only_emits_after_setmode) (fact assms)+
  then obtain rest where rest: "events (snd (after_setmode flt cfg w1)) = events w1 @ rest"
    "list_all Q rest"
    using only_emitsD by blast
  have "gpio_mode (snd (after_setmode flt cfg w1)) = gpio_mode w1"
    by (rule keeps_modeD [OF keeps_mode_after_setmode])
  then have mode: "gpio_mode (snd (init_gpio flt cfg w)) = Some BOARD"
    unfolding run by (simp add: w1_def)
  have ev: "events (snd (init_gpio flt cfg w)) = events w @ GPIO_setmode BOARD # rest"
    unfolding run rest(1) by (simp add: w1_def)
  show ?thesis
  proof (intro exI conjI impI)
    show "events (snd (init_gpio flt cfg w)) = events w @ GPIO_setmode BOARD # rest" by (fact ev)
    show "list_all Q rest" by (fact rest(2))
    show "gpio_mode (snd (init_gpio flt cfg w)) = Some BOARD" by (fact mode)
    show "rest = []" if "flt (events w) (GPIO_setmode BOARD) \<noteq> None"
      using that None by simp
  qed
next
  case (Some msg)
  have ev: "events (snd (init_gpio flt cfg w)) = events w @ GPIO_setmode BOARD # []"
    unfolding init_gpio_run_failed [where flt=flt and w=w, OF Some] by simp
  show ?thesis
  proof (intro exI conjI impI)
    show "events (snd (init_gpio flt cfg w)) = events w @ GPIO_setmode BOARD # []" by (fact ev)
    show "list_all Q []" by simp
    show "gpio_mode (snd (init_gpio flt cfg w)) = Some BOARD"
      if "flt (events w) (GPIO_setmode BOARD) = None"
      using that Some by simp
    show "[] = ([]::call list)" by simp
  qed
qed

text \<open>
  C9. Whatever the configuration and whatever fails, the first call of \<open>init_gpio\<close>
  sets the numbering mode to BOARD; every pin it configures, every listener it arms and
  every output it drives comes after it, the mode is not set again, and it is BOARD when
  \<open>init_gpio\<close> ends. If setting the mode fails, nothing else is attempted.
\<close>

theorem init_gpio_sets_board_mode_first:
  "\<exists>rest. new_events w (snd (init_gpio flt physical_config w)) = GPIO_setmode BOARD # rest
     \<and> list_all (\<lambda>c. \<not> is_setmode c) rest
     \<and> (flt (events w) (GPIO_setmode BOARD) = None \<longrightarrow>
          gpio_mode (snd (init_gpio flt physical_config w)) = Some BOARD)
     \<and> (flt (events w) (GPIO_setmode BOARD) \<noteq> None \<longrightarrow> rest = [])"
proof -
  have "\<exists>rest. events (snd (init_gpio flt physical_config w)) = events w @ GPIO_setmode BOARD # rest
           \<and> list_all (\<lambda>c. \<not> is_setmode c) rest
           \<and> (flt (events w) (GPIO_setmode BOARD) = None \<longrightarrow>
                gpio_mode (snd (init_gpio flt physical_config w)) = Some BOARD)
           \<and> (flt (events w) (GPIO_setmode BOARD) \<noteq> None \<longrightarrow> rest = [])"
    by (rule init_gpio_calls) simp_all
  then obtain rest where rest:
    "events (snd (init_gpio flt physical_config w)) = events w @ GPIO_setmode BOARD # rest"
    "list_all (\<lambda>c. \<not> is_setmode c) rest"
    "flt (events w) (GPIO_setmode BOARD) = None \<longrightarrow>
       gpio_mode (snd (init_gpio flt physical_config w)) = Some BOARD"
    "flt (events w) (GPIO_setmode BOARD) \<noteq> None \<longrightarrow> rest = []"
    by (elim exE conjE)
  show ?thesis
  proof (intro exI conjI)
    show "new_events w (snd (init_gpio flt physical_config w)) = GPIO_setmode BOARD # rest"
      by (rule new_events_append [OF rest(1)])
  qed (fact rest(2) rest(3) rest(4))+
qed

theorem init_gpio_sets_board_mode_first_witness:
  "gpio_mode (snd (init_gpio no_faults brisk initial_world)) = Some BOARD"
proof -
  have "no_faults (events initial_world) (GPIO_setmode BOARD) = None"
    by (simp add: no_faults_def)
  moreover have
    "no_faults (events initial_world) (GPIO_setmode BOARD) = None \<longrightarrow>
          gpio_mode (snd (init_gpio no_faults brisk initial_world)) = Some BOARD"
    using init_gpio_sets_board_mode_first [of initial_world no_faults brisk]
    by (elim exE conjE)
  ultimately show ?thesis by simp
qed

section \<open>Lifecycle\<close>

lemma close_gpio_run:
  "close_gpio w =
     (Inr (), w\<lparr>events := events w @ [Log INFO ClosingGpio, GPIO_cleanup],
                gpio_mode := None, channels := [], listeners := []\<rparr>)"
  by (simp add: close_gpio_def andthen_def logger_def GPIO_cleanup_call_def record_call_def)

lemma finally_close_gpio_run:
  "finally_close_gpio (r, w) =
     (r, w\<lparr>events := events w @ [Log INFO ClosingGpio, GPIO_cleanup],
            gpio_mode := None, channels := [], listeners := []\<rparr>)"
  by (simp add: finally_close_gpio_def close_gpio_run)

lemma armed_loop_step_raises:
  assumes "\<not> sig (events w)" and "flt (events w) (Time_sleep 300000) = Some msg"
  shows "armed_loop flt sig (Suc n) w =
           Exited (Inl (LibraryError msg), w\<lparr>events := events w @ [Time_sleep 300000]\<rparr>)"
  using assms by (simp add: time_sleep_def extcall_def record_call_def)

lemma armed_loop_step_on:
  assumes "\<not> sig (events w)" and "flt (events w) (Time_sleep 300000) = None"
  shows "armed_loop flt sig (Suc n) w =
           armed_loop flt sig n (w\<lparr>events := events w @ [Time_sleep 300000, Log DEBUG StillAlive]\<rparr>)"
  using assms by (simp add: time_sleep_def extcall_def record_call_def)

lemma armed_loop_step_signal:
  assumes "sig (events w)"
  shows "armed_loop flt sig (Suc n) w = Terminated (w\<lparr>events := events w @ [Time_sleep 300000]\<rparr>)"
  using assms by (simp add: record_call_def)

lemma armed_loop_exited:
  assumes "armed_loop flt sig fuel w = Exited (r, w')"
  shows "\<exists>new. w' = w\<lparr>events := events w @ new\<rparr>
           \<and> list_all (\<lambda>c. \<not> is_gpio c \<and> \<not> is_client_setup c \<and> \<not> is_write c) new
           \<and> (\<exists>e. r = Inl e \<and> e \<noteq> DataError)"
  using assms
proof (induction fuel arbitrary: w)
  case 0
  then show ?case by simp
next
  case (Suc n)
  show ?case
  proof (cases "sig (events w)")
    case True
    from Suc.prems show ?thesis
      unfolding armed_loop_step_signal [where sig=sig and w=w, OF True] by simp
  next
    case False
    show ?thesis
    proof (cases "flt (events w) (Time_sleep 300000)")
      case (Some msg)
      from Suc.prems
      have "r = Inl (LibraryError msg)" "w' = w\<lparr>events := events w @ [Time_sleep 300000]\<rparr>"
        unfolding armed_loop_step_raises [where sig=sig and flt=flt and w=w, OF False Some]
        by simp_all
      then show ?thesis by (intro exI [of _ "[Time_sleep 300000]"]) simp
    next
      case None
      define w1 where "w1 = w\<lparr>events := events w @ [Time_sleep 300000, Log DEBUG StillAlive]\<rparr>"
      from Suc.prems have "armed_loop flt sig n w1 = Exited (r, w')"
        unfolding armed_loop_step_on [where sig=sig and flt=flt and w=w, OF False None] w1_def .
      from Suc.IH [OF this] obtain new where new: "w' = w1\<lparr>events := events w1 @ new\<rparr>"
        "list_all (\<lambda>c. \<not> is_gpio c \<and> \<not> is_client_setup c \<and> \<not> is_write c) new"
        "\<exists>e. r = Inl e \<and> e \<noteq> DataError"
        by blast
      show ?thesis
      proof (intro exI [of _ "[Time_sleep 300000, Log DEBUG StillAlive] @ new"] conjI)
        show "w' = w\<lparr>events := events w @ [Time_sleep 300000, Log DEBUG StillAlive] @ new\<rparr>"
          using new(1) by (simp add: w1_def)
        show "list_all (\<lambda>c. \<not> is_gpio c \<and> \<not> is_client_setup c \<and> \<not> is_write c)
                ([Time_sleep 300000, Log DEBUG StillAlive] @ new)"
          using new(2) by simp
        show "\<exists>e. r = Inl e \<and> e \<noteq> DataError" by (fact new(3))
      qed
    qed
  qed
qed

lemma armed_loop_terminated:
  assumes "armed_loop flt sig fuel w = Terminated w'"
  shows "\<exists>new. w' = w\<lparr>events := events w @ new\<rparr>
           \<and> list_all (\<lambda>c. \<not> is_gpio c \<and> \<not> is_client_setup c \<and> \<not> is_write c) new"
  using assms
proof (induction fuel arbitrary: w)
  case 0
  then show ?case by simp
next
  case (Suc n)
  show ?case
  proof (cases "sig (events w)")
    case True
    from Suc.prems have "w' = w\<lparr>events := events w @ [Time_sleep 300000]\<rparr>"
      unfolding armed_loop_step_signal [where sig=sig and w=w, OF True] by simp
    then show ?thesis by (intro exI [of _ "[Time_sleep 300000]"]) simp
  next
    case False
    show ?thesis
    proof (cases "flt (events w) (Time_sleep 300000)")
      case (Some msg)
      from Suc.prems show ?thesis
        unfolding armed_loop_step_raises [where sig=sig and flt=flt and w=w, OF False Some]
        by simp
    next
      case None
      define w1 where "w1 = w\<lparr>events := events w @ [Time_sleep 300000, Log DEBUG StillAlive]\<rparr>"
      from Suc.prems have "armed_loop flt sig n w1 = Terminated w'"
        unfolding armed_loop_step_on [where sig=sig and flt=flt and w=w, OF False None] w1_def .
      from Suc.IH [OF this] obtain new where new: "w' = w1\<lparr>events := events w1 @ new\<rparr>"
        "list_all (\<lambda>c. \<not> is_gpio c \<and> \<not> is_client_setup c \<and> \<not> is_write c) new"
        by blast
      show ?thesis
      proof (intro exI [of _ "[Time_sleep 300000, Log DEBUG StillAlive] @ new"] conjI)
        show "w' = w\<lparr>events := events w @ [Time_sleep 300000, Log DEBUG StillAlive] @ new\<rparr>"
          using new(1) by (simp add: w1_def)
        show "list_all (\<lambda>c. \<not> is_gpio c \<and> \<not> is_client_setup c \<and> \<not> is_write c)
                ([Time_sleep 300000, Log DEBUG StillAlive] @ new)"
          using new(2) by simp
      qed
    qed
  qed
qed

lemma raises_onlyD: "raises_only P p \<Longrightarrow> fst (p w) = Inl e \<Longrightarrow> P e"
  by (simp add: raises_only_def)

lemma raises_only_extcall:
  assumes "\<And>msg. P (LibraryError msg)"
  shows "raises_only P (extcall flt c eff)"
  using assms by (simp add: raises_only_def extcall_def split: option.splits)

lemma raises_only_logger: "raises_only P (logger s m)"
  by (simp add: raises_only_def logger_def)

lemma raises_only_raise: "P e \<Longrightarrow> raises_only P (raise e)"
  by (simp add: raises_only_def raise_def)

lemma raises_only_skip: "raises_only P skip"
  by (simp add: raises_only_def skip_def)

lemma raises_only_andthen:
  assumes p: "raises_only P p" and q: "raises_only P q"
  shows "raises_only P (andthen p q)"
  unfolding raises_only_def
proof (intro allI impI)
  fix w e
  assume e: "fst (andthen p q w) = Inl e"
  obtain r w' where rw: "p w = (r, w')" by (cases "p w")
  show "P e"
  proof (cases r)
    case (Inl e')
    with rw e have "fst (p w) = Inl e" by (simp add: andthen_def)
    then show ?thesis by (rule raises_onlyD [OF p])
  next
    case (Inr u)
    with rw e have "fst (q w') = Inl e" by (simp add: andthen_def)
    then show ?thesis by (rule raises_onlyD [OF q])
  qed
qed

lemma raises_only_for_each:
  assumes "\<And>x. raises_only P (f x)"
  shows "raises_only P (for_each f xs)"
proof (induction xs)
  case Nil
  show ?case by (simp add: for_each_Nil raises_only_skip)
next
  case (Cons x xs)
  show ?case unfolding for_each_andthen
    by (rule raises_only_andthen [OF assms Cons.IH])
qed

lemma raises_only_GPIO_setup:
  assumes "\<And>msg. P (LibraryError msg)" and "P HardwareFault"
  shows "raises_only P (GPIO_setup_call flt p d pud)"
  using assms
  by (simp add: raises_only_def GPIO_setup_call_def extcall_def split: option.splits)

lemma raises_only_init_gpio:
  assumes lib: "\<And>msg. P (LibraryError msg)" and hw: "P HardwareFault"
    and "P TypeError" and "P AttributeError"
  shows "raises_only P (init_gpio flt cfg)"
proof -
  have su: "raises_only P (GPIO_setup_call flt p d pud)" for p d pud
    by (rule raises_only_GPIO_setup [OF lib hw])
  have loop: "raises_only P (for_each
               (\<lambda>button.
                  andthen (GPIO_setup_call flt (ButtonModel.pin button) IN (Some PUD_DOWN))
                    (GPIO_add_event_detect_call flt (ButtonModel.pin button) RISING button
                       (bouncetime cfg))) bs)" for bs
    unfolding GPIO_add_event_detect_call_def
    by (intro raises_only_for_each raises_only_andthen raises_only_extcall lib su)
  have tail: "raises_only P (case led cfg of
               None \<Rightarrow> raise AttributeError
             | Some l \<Rightarrow>
               andthen (GPIO_setup_call flt (LedModel.pin l) OUT None)
                 (andthen (GPIO_output_call flt (LedModel.pin l) LOW)
                    (logger INFO GpioInitComplete)))"
    by (cases "led cfg")
      (simp_all add: raises_only_raise raises_only_andthen raises_only_extcall raises_only_logger
        su GPIO_output_call_def assms)
  have rest: "raises_only P (after_setmode flt cfg)"
  proof (cases "buttons cfg")
    case None
    then show ?thesis by (simp add: after_setmode_def raises_only_raise assms)
  next
    case (Some bs)
    show ?thesis unfolding after_setmode_def Some option.case
      by (rule raises_only_andthen [OF loop tail])
  qed
  show ?thesis
    unfolding init_gpio_split GPIO_setmode_call_def
    by (rule raises_only_andthen [OF raises_only_extcall rest]) (rule lib)
qed

lemma construction_None:
  assumes "influxdb config = None"
  shows "post_to_influxdb_and_flash_led_callback flt config w = (Inl AttributeError, w)"
  using assms
  by (simp add: post_to_influxdb_and_flash_led_callback_def post_to_influxdb_callback_def
      get_influxdb_client_def)

lemma construction_new_failed:
  assumes "influxdb config = Some c"
    and "flt (events w) (New_InfluxDBClient (database_name c)) = Some msg"
  shows "post_to_influxdb_and_flash_led_callback flt config w =
           (Inl (LibraryError msg),
            w\<lparr>events := events w @ [New_InfluxDBClient (database_name c)]\<rparr>)"
  using assms
  by (simp add: post_to_influxdb_and_flash_led_callback_def post_to_influxdb_callback_def
      get_influxdb_client_def andthen_def extcall_def record_call_def)

lemma construction_create_failed:
  assumes "influxdb config = Some c"
    and "flt (events w) (New_InfluxDBClient (database_name c)) = None"
    and "flt (events w @ [New_InfluxDBClient (database_name c)])
           (Create_database (database_name c)) = Some msg"
  shows "post_to_influxdb_and_flash_led_callback flt config w =
           (Inl (LibraryError msg),
            w\<lparr>events := events w @ [New_InfluxDBClient (database_name c),
                                     Create_database (database_name c)]\<rparr>)"
  using assms
  by (simp add: post_to_influxdb_and_flash_led_callback_def post_to_influxdb_callback_def
      get_influxdb_client_def andthen_def extcall_def record_call_def)

lemma construction_ok:
  assumes "influxdb config = Some c"
    and "flt (events w) (New_InfluxDBClient (database_name c)) = None"
    and "flt (events w @ [New_InfluxDBClient (database_name c)])
           (Create_database (database_name c)) = None"
  shows "post_to_influxdb_and_flash_led_callback flt config w =
           (Inr (built_handler flt config c),
            w\<lparr>events := events w @ [New_InfluxDBClient (database_name c),
                                     Create_database (database_name c)]\<rparr>)"
  using assms
  by (simp add: post_to_influxdb_and_flash_led_callback_def post_to_influxdb_callback_def
      get_influxdb_client_def andthen_def extcall_def record_call_def built_handler_def)

lemma construction_failed:
  assumes "post_to_influxdb_and_flash_led_callback flt config w = (Inl e, w')"
  shows "e \<noteq> DataError \<and>
         (\<exists>pre. w' = w\<lparr>events := events w @ pre\<rparr>
            \<and> list_all (\<lambda>c. \<not> is_gpio c \<and> \<not> is_write c) pre
            \<and> length (filter is_client_new pre) \<le> 1)"
proof (cases "influxdb config")
  case None
  from assms [unfolded construction_None [OF None]]
  have "e = AttributeError" "w' = w\<lparr>events := events w @ []\<rparr>" by simp_all
  then show ?thesis by (intro conjI exI [of _ "[]"]) simp_all
next
  case (Some c)
  let ?d = "database_name c"
  show ?thesis
  proof (cases "flt (events w) (New_InfluxDBClient ?d)")
    case new: (Some msg)
    from assms [unfolded construction_new_failed [where flt=flt and w=w, OF Some new]]
    have "e = LibraryError msg" "w' = w\<lparr>events := events w @ [New_InfluxDBClient ?d]\<rparr>"
      by simp_all
    then show ?thesis by (intro conjI exI [of _ "[New_InfluxDBClient ?d]"]) simp_all
  next
    case new: None
    show ?thesis
    proof (cases "flt (events w @ [New_InfluxDBClient ?d]) (Create_database ?d)")
      case cr: (Some msg)
      from assms [unfolded construction_create_failed [where flt=flt and w=w, OF Some new cr]]
      have "e = LibraryError msg"
        "w' = w\<lparr>events := events w @ [New_InfluxDBClient ?d, Create_database ?d]\<rparr>"
        by simp_all
      then show ?thesis
        by (intro conjI exI [of _ "[New_InfluxDBClient ?d, Create_database ?d]"]) simp_all
    next
      case cr: None
      from assms [unfolded construction_ok [where flt=flt and w=w, OF Some new cr]]
      show ?thesis by simp
    qed
  qed
qed

lemma gpio_not_client:
  "is_gpio c \<Longrightarrow> c \<noteq> GPIO_cleanup \<Longrightarrow> c \<noteq> GPIO_cleanup \<and> \<not> is_client_setup c \<and> \<not> is_write c"
  by (cases c) simp_all

lemma init_gpio_world:
  "\<exists>rest. events (snd (init_gpio flt cfg w)) = events w @ GPIO_setmode BOARD # rest
     \<and> list_all (\<lambda>c. c \<noteq> GPIO_cleanup \<and> \<not> is_client_setup c \<and> \<not> is_write c) rest"
proof -
  have "\<exists>rest. events (snd (init_gpio flt cfg w)) = events w @ GPIO_setmode BOARD # rest
           \<and> list_all (\<lambda>c. c \<noteq> GPIO_cleanup \<and> \<not> is_client_setup c \<and> \<not> is_write c) rest
           \<and> (flt (events w) (GPIO_setmode BOARD) = None \<longrightarrow>
                gpio_mode (snd (init_gpio flt cfg w)) = Some BOARD)
           \<and> (flt (events w) (GPIO_setmode BOARD) \<noteq> None \<longrightarrow> rest = [])"
    by (rule init_gpio_calls) (simp_all add: gpio_not_client)
  then show ?thesis by (elim exE conjE) (intro exI conjI)
qed

lemma init_gpio_not_DataError:
  assumes "init_gpio flt cfg w = (Inl e, w1)"
  shows "e \<noteq> DataError"
proof -
  have "raises_only (\<lambda>e. e \<noteq> DataError) (init_gpio flt cfg)"
    by (rule raises_only_init_gpio) simp_all
  from raises_onlyD [OF this, of w e] assms show ?thesis by simp
qed

lemma gpio_context_init_failed:
  assumes "init_gpio flt cfg w = (Inl e, w1)"
  shows "gpio_context flt cfg body w =
           Exited (Inl e, w1\<lparr>events := events w1 @ [Log INFO ClosingGpio, GPIO_cleanup],
                             gpio_mode := None, channels := [], listeners := []\<rparr>)"
  using assms by (simp add: gpio_context_def finally_close_gpio_run)

lemma gpio_context_body_exited:
  assumes "init_gpio flt cfg w = (Inr u, w1)" and "body w1 = Exited (r, w2)"
  shows "gpio_context flt cfg body w =
           Exited (r, w2\<lparr>events := events w2 @ [Log INFO ClosingGpio, GPIO_cleanup],
                          gpio_mode := None, channels := [], listeners := []\<rparr>)"
  using assms by (simp add: gpio_context_def finally_close_gpio_run)

lemma gpio_context_body_terminated:
  assumes "init_gpio flt cfg w = (Inr u, w1)" and "body w1 = Terminated w2"
  shows "gpio_context flt cfg body w = Terminated w2"
  using assms by (simp add: gpio_context_def)

lemma gpio_context_body_running:
  assumes "init_gpio flt cfg w = (Inr u, w1)" and "body w1 = Running"
  shows "gpio_context flt cfg body w = Running"
  using assms by (simp add: gpio_context_def)

lemma gpio_context_exited:
  assumes "gpio_context flt cfg (armed_loop flt sig fuel) w = Exited (r, w')"
  shows "\<exists>mid. events w' = events w @ GPIO_setmode BOARD # mid @ [Log INFO ClosingGpio, GPIO_cleanup]
           \<and> list_all (\<lambda>c. c \<noteq> GPIO_cleanup \<and> \<not> is_client_setup c \<and> \<not> is_write c) mid
           \<and> gpio_mode w' = None \<and> channels w' = [] \<and> listeners w' = []
           \<and> (\<exists>e. r = Inl e \<and> e \<noteq> DataError)"
proof -
  let ?Q = "\<lambda>c. c \<noteq> GPIO_cleanup \<and> \<not> is_client_setup c \<and> \<not> is_write c"
  obtain ri w1 where init: "init_gpio flt cfg w = (ri, w1)" by (cases "init_gpio flt cfg w")
  obtain rest where rest: "events w1 = events w @ GPIO_setmode BOARD # rest" "list_all ?Q rest"
    using init_gpio_world [of flt cfg w] unfolding init by auto
  show ?thesis
  proof (cases ri)
    case (Inl e)
    have e: "e \<noteq> DataError" by (rule init_gpio_not_DataError [OF init [unfolded Inl]])
    from assms have "r = Inl e"
      and w': "w' = w1\<lparr>events := events w1 @ [Log INFO ClosingGpio, GPIO_cleanup],
                gpio_mode := None, channels := [], listeners := []\<rparr>"
      unfolding gpio_context_init_failed [OF init [unfolded Inl]] by simp_all
    show ?thesis
    proof (intro exI [of _ rest] conjI)
      show "events w' = events w @ GPIO_setmode BOARD # rest @ [Log INFO ClosingGpio, GPIO_cleanup]"
        using rest(1) by (simp add: w')
      show "\<exists>e. r = Inl e \<and> e \<noteq> DataError" using \<open>r = Inl e\<close> e by blast
    qed (simp_all add: w' rest(2))
  next
    case (Inr u)
    note init' = init [unfolded Inr]
    show ?thesis
    proof (cases "armed_loop flt sig fuel w1")
      case Running
      from assms show ?thesis
        unfolding gpio_context_body_running [where body="armed_loop flt sig fuel", OF init' Running] by simp
    next
      case (Terminated w2)
      from assms show ?thesis
        unfolding gpio_context_body_terminated [where body="armed_loop flt sig fuel", OF init' Terminated] by simp
    next
      case (Exited rw)
      obtain r2 w2 where rw: "rw = (r2, w2)" by (cases rw)
      note body = Exited [unfolded rw]
      from assms have "r = r2"
        and w': "w' = w2\<lparr>events := events w2 @ [Log INFO ClosingGpio, GPIO_cleanup],
                gpio_mode := None, channels := [], listeners := []\<rparr>"
        unfolding gpio_context_body_exited [where body="armed_loop flt sig fuel", OF init' body] by simp_all
      from armed_loop_exited [OF body] obtain new where new: "w2 = w1\<lparr>events := events w1 @ new\<rparr>"
        "list_all (\<lambda>c. \<not> is_gpio c \<and> \<not> is_client_setup c \<and> \<not> is_write c) new"
        "\<exists>e. r2 = Inl e \<and> e \<noteq> DataError"
        by blast
      have "list_all ?Q new"
        using new(2) by (auto simp: list_all_iff)
      with rest(2) have mid: "list_all ?Q (rest @ new)" by simp
      show ?thesis
      proof (intro exI [of _ "rest @ new"] conjI)
        show "events w' = events w @ GPIO_setmode BOARD # (rest @ new) @ [Log INFO ClosingGpio, GPIO_cleanup]"
          using rest(1) new(1) by (simp add: w')
        show "\<exists>e. r = Inl e \<and> e \<noteq> DataError" using \<open>r = r2\<close> new(3) by blast
        show "list_all ?Q (rest @ new)" by (fact mid)
      qed (simp_all add: w')
    qed
  qed
qed

lemma gpio_context_terminated:
  assumes "gpio_context flt cfg (armed_loop flt sig fuel) w = Terminated w'"
  shows "\<exists>mid. events w' = events w @ GPIO_setmode BOARD # mid
           \<and> list_all (\<lambda>c. c \<noteq> GPIO_cleanup \<and> \<not> is_client_setup c \<and> \<not> is_write c) mid"
proof -
  let ?Q = "\<lambda>c. c \<noteq> GPIO_cleanup \<and> \<not> is_client_setup c \<and> \<not> is_write c"
  obtain ri w1 where init: "init_gpio flt cfg w = (ri, w1)" by (cases "init_gpio flt cfg w")
  obtain rest where rest: "events w1 = events w @ GPIO_setmode BOARD # rest" "list_all ?Q rest"
    using init_gpio_world [of flt cfg w] unfolding init by auto
  show ?thesis
  proof (cases ri)
    case (Inl e)
    from assms show ?thesis
      unfolding gpio_context_init_failed [OF init [unfolded Inl]] by simp
  next
    case (Inr u)
    note init' = init [unfolded Inr]
    show ?thesis
    proof (cases "armed_loop flt sig fuel w1")
      case Running
      from assms show ?thesis
        unfolding gpio_context_body_running [where body="armed_loop flt sig fuel", OF init' Running] by simp
    next
      case (Exited rw)
      obtain r2 w2 where rw: "rw = (r2, w2)" by (cases rw)
      from assms show ?thesis
        unfolding gpio_context_body_exited [where body="armed_loop flt sig fuel", OF init' Exited [unfolded rw]] by simp
    next
      case (Terminated w2)
      from assms have w': "w' = w2"
        unfolding gpio_context_body_terminated [where body="armed_loop flt sig fuel", OF init' Terminated] by simp
      from armed_loop_terminated [OF Terminated] obtain new where
        new: "w2 = w1\<lparr>events := events w1 @ new\<rparr>"
        "list_all (\<lambda>c. \<not> is_gpio c \<and> \<not> is_client_setup c \<and> \<not> is_write c) new"
        by blast
      have "list_all ?Q new"
        using new(2) by (auto simp: list_all_iff)
      with rest(2) have mid: "list_all ?Q (rest @ new)" by simp
      show ?thesis
      proof (intro exI [of _ "rest @ new"] conjI)
        show "events w' = events w @ GPIO_setmode BOARD # (rest @ new)"
          using rest(1) new(1) by (simp add: w')
        show "list_all ?Q (rest @ new)" by (fact mid)
      qed
    qed
  qed
qed

lemma main_failed_construction:
  assumes "post_to_influxdb_and_flash_led_callback flt config w = (Inl e, w1)"
  shows "main flt sig fuel config w = Exited (Inl e, w1)"
  using assms by (simp add: main_def)

lemma main_after_construction:
  assumes "post_to_influxdb_and_flash_led_callback flt config w = (Inr hdl, w1)"
  shows "main flt sig fuel config w = gpio_context flt config (armed_loop flt sig fuel) w1"
  using assms by (simp add: main_def)

lemma main_exited:
  assumes "main flt sig fuel cfg w = Exited (r, w')"
  shows "(\<exists>pre e. w' = w\<lparr>events := events w @ pre\<rparr> \<and> r = Inl e \<and> e \<noteq> DataError
            \<and> list_all (\<lambda>c. \<not> is_gpio c \<and> \<not> is_write c) pre
            \<and> length (filter is_client_new pre) \<le> 1)
       \<or> (\<exists>c mid. influxdb cfg = Some c
            \<and> events w' = events w @ [New_InfluxDBClient (database_name c),
                                       Create_database (database_name c)]
                  @ GPIO_setmode BOARD # mid @ [Log INFO ClosingGpio, GPIO_cleanup]
            \<and> list_all (\<lambda>c. c \<noteq> GPIO_cleanup \<and> \<not> is_client_setup c \<and> \<not> is_write c) mid
            \<and> gpio_mode w' = None \<and> channels w' = [] \<and> listeners w' = []
            \<and> (\<exists>e. r = Inl e \<and> e \<noteq> DataError))"
proof -
  obtain res w1 where cons: "post_to_influxdb_and_flash_led_callback flt cfg w = (res, w1)"
    by (cases "post_to_influxdb_and_flash_led_callback flt cfg w")
  show ?thesis
  proof (cases res)
    case (Inl e)
    from assms main_failed_construction [OF cons [unfolded Inl], of sig fuel]
    have "w' = w1" "r = Inl e" by simp_all
    moreover from construction_failed [OF cons [unfolded Inl]] obtain pre where
      "e \<noteq> DataError" "w1 = w\<lparr>events := events w @ pre\<rparr>"
      "list_all (\<lambda>c. \<not> is_gpio c \<and> \<not> is_write c) pre"
      "length (filter is_client_new pre) \<le> 1"
      by blast
    ultimately have "w' = w\<lparr>events := events w @ pre\<rparr> \<and> r = Inl e \<and> e \<noteq> DataError
            \<and> list_all (\<lambda>c. \<not> is_gpio c \<and> \<not> is_write c) pre
            \<and> length (filter is_client_new pre) \<le> 1"
      by simp
    then show ?thesis by blast
  next
    case (Inr hdl)
    from handler_construction [OF cons [unfolded Inr]] obtain c where c: "influxdb cfg = Some c"
      and w1: "w1 = w\<lparr>events := events w @ [New_InfluxDBClient (database_name c),
                                      Create_database (database_name c)]\<rparr>"
      by blast
    from assms main_after_construction [OF cons [unfolded Inr], of sig fuel]
    have "gpio_context flt cfg (armed_loop flt sig fuel) w1 = Exited (r, w')" by simp
    from gpio_context_exited [OF this] obtain mid where
      mid: "events w' = events w1 @ GPIO_setmode BOARD # mid @ [Log INFO ClosingGpio, GPIO_cleanup]"
      "list_all (\<lambda>c. c \<noteq> GPIO_cleanup \<and> \<not> is_client_setup c \<and> \<not> is_write c) mid"
      "gpio_mode w' = None" "channels w' = []" "listeners w' = []"
      "\<exists>e. r = Inl e \<and> e \<noteq> DataError"
      by blast
    have "events w' = events w @ [New_InfluxDBClient (database_name c),
                                       Create_database (database_name c)]
                  @ GPIO_setmode BOARD # mid @ [Log INFO ClosingGpio, GPIO_cleanup]"
      using mid(1) by (simp add: w1)
    with c mid(2-6) show ?thesis by blast
  qed
qed

lemma main_terminated:
  assumes "main flt sig fuel cfg w = Terminated w'"
  shows "\<exists>c mid. influxdb cfg = Some c
            \<and> events w' = events w @ [New_InfluxDBClient (database_name c),
                                       Create_database (database_name c)]
                  @ GPIO_setmode BOARD # mid
            \<and> list_all (\<lambda>c. c \<noteq> GPIO_cleanup \<and> \<not> is_client_setup c \<and> \<not> is_write c) mid"
proof -
  obtain res w1 where cons: "post_to_influxdb_and_flash_led_callback flt cfg w = (res, w1)"
    by (cases "post_to_influxdb_and_flash_led_callback flt cfg w")
  show ?thesis
  proof (cases res)
    case (Inl e)
    from assms main_failed_construction [OF cons [unfolded Inl], of sig fuel]
    show ?thesis by simp
  next
    case (Inr hdl)
    from handler_construction [OF cons [unfolded Inr]] obtain c where c: "influxdb cfg = Some c"
      and w1: "w1 = w\<lparr>events := events w @ [New_InfluxDBClient (database_name c),
                                      Create_database (database_name c)]\<rparr>"
      by blast
    from assms main_after_construction [OF cons [unfolded Inr], of sig fuel]
    have "gpio_context flt cfg (armed_loop flt sig fuel) w1 = Terminated w'" by simp
    from gpio_context_terminated [OF this] obtain mid where
      mid: "events w' = events w1 @ GPIO_setmode BOARD # mid"
      "list_all (\<lambda>c. c \<noteq> GPIO_cleanup \<and> \<not> is_client_setup c \<and> \<not> is_write c) mid"
      by blast
    have "events w' = events w @ [New_InfluxDBClient (database_name c),
                                       Create_database (database_name c)]
                  @ GPIO_setmode BOARD # mid"
      using mid(1) by (simp add: w1)
    with c mid(2) show ?thesis by blast
  qed
qed

lemma load_config_world:
  assumes "load_config_from_file flt filename raw_cfg w = (res, w1)"
  shows "(\<exists>pre. w1 = w\<lparr>events := events w @ pre\<rparr> \<and> list_all (\<lambda>c. \<not> is_gpio c) pre)
       \<and> (case res of
             Inl e \<Rightarrow> (\<exists>msg. e = LibraryError msg) \<or> OverallModel_validate raw_cfg = Inl e
           | Inr cfg \<Rightarrow> OverallModel_validate raw_cfg = Inr cfg)"
proof -
  have "(w1 = w\<lparr>events := events w @ [Open_file filename]\<rparr>
      \<or> w1 = w\<lparr>events := events w @ [Open_file filename, Yaml_safe_load]\<rparr>
      \<or> (\<exists>cfg. w1 = w\<lparr>events := events w @ [Open_file filename, Yaml_safe_load,
                                          Log INFO (LoadedConfiguration cfg)]\<rparr>))
     \<and> (case res of
             Inl e \<Rightarrow> (\<exists>msg. e = LibraryError msg) \<or> OverallModel_validate raw_cfg = Inl e
           | Inr cfg \<Rightarrow> OverallModel_validate raw_cfg = Inr cfg)"
    using assms
    by (auto simp: load_config_from_file_def andthen_def extcall_def record_call_def
        split: option.splits sum.splits)
  then have w1: "w1 = w\<lparr>events := events w @ [Open_file filename]\<rparr>
      \<or> w1 = w\<lparr>events := events w @ [Open_file filename, Yaml_safe_load]\<rparr>
      \<or> (\<exists>cfg. w1 = w\<lparr>events := events w @ [Open_file filename, Yaml_safe_load,
                                          Log INFO (LoadedConfiguration cfg)]\<rparr>)"
    and res: "case res of
             Inl e \<Rightarrow> (\<exists>msg. e = LibraryError msg) \<or> OverallModel_validate raw_cfg = Inl e
           | Inr cfg \<Rightarrow> OverallModel_validate raw_cfg = Inr cfg"
    by simp_all
  from w1 have "\<exists>pre. w1 = w\<lparr>events := events w @ pre\<rparr> \<and> list_all (\<lambda>c. \<not> is_gpio c) pre"
  proof (elim disjE exE)
    assume "w1 = w\<lparr>events := events w @ [Open_file filename]\<rparr>"
    then show ?thesis by (intro exI [of _ "[Open_file filename]"]) simp
  next
    assume "w1 = w\<lparr>events := events w @ [Open_file filename, Yaml_safe_load]\<rparr>"
    then show ?thesis by (intro exI [of _ "[Open_file filename, Yaml_safe_load]"]) simp
  next
    fix cfg
    assume "w1 = w\<lparr>events := events w @ [Open_file filename, Yaml_safe_load,
                                          Log INFO (LoadedConfiguration cfg)]\<rparr>"
    then show ?thesis
      by (intro exI [of _ "[Open_file filename, Yaml_safe_load,
                            Log INFO (LoadedConfiguration cfg)]"]) simp
  qed
  with res show ?thesis by (rule conjI [rotated])
qed

text \<open>
  What the \<^verbatim>\<open>__main__\<close> block does before \<open>main\<close>: either it ends there, or it
  reaches \<open>main\<close> with a validated configuration, having made no GPIO call.
\<close>

lemma script_startup:
  "(\<exists>e pre. (\<forall>sig fuel. script flt sig fuel raw_cfg w = Exited (Inl e, w\<lparr>events := events w @ pre\<rparr>))
        \<and> list_all (\<lambda>c. \<not> is_gpio c) pre
        \<and> ((\<exists>msg. e = LibraryError msg) \<or> OverallModel_validate raw_cfg = Inl e))
   \<or> (\<exists>cfg pre. (\<forall>sig fuel. script flt sig fuel raw_cfg w
                      = main flt sig fuel cfg (w\<lparr>events := events w @ pre\<rparr>))
        \<and> list_all (\<lambda>c. \<not> is_gpio c) pre
        \<and> OverallModel_validate raw_cfg = Inr cfg)"
proof (cases "flt (events w) Logging_basicConfig")
  case (Some msg)
  then have "\<forall>sig fuel. script flt sig fuel raw_cfg w
      = Exited (Inl (LibraryError msg), w\<lparr>events := events w @ [Logging_basicConfig]\<rparr>)"
    by (simp add: script_def setup_logging_def extcall_def record_call_def)
  moreover have "list_all (\<lambda>c. \<not> is_gpio c) [Logging_basicConfig]" by simp
  ultimately show ?thesis by blast
next
  case None
  define wa where "wa = w\<lparr>events := events w @ [Logging_basicConfig]\<rparr>"
  obtain res wb where load: "load_config_from_file flt ''config.yaml'' raw_cfg wa = (res, wb)"
    by (cases "load_config_from_file flt ''config.yaml'' raw_cfg wa")
  from load_config_world [OF load] obtain pre0 where pre0: "wb = wa\<lparr>events := events wa @ pre0\<rparr>"
    "list_all (\<lambda>c. \<not> is_gpio c) pre0"
    and res: "case res of
             Inl e \<Rightarrow> (\<exists>msg. e = LibraryError msg) \<or> OverallModel_validate raw_cfg = Inl e
           | Inr cfg \<Rightarrow> OverallModel_validate raw_cfg = Inr cfg"
    by blast
  have wb: "wb = w\<lparr>events := events w @ (Logging_basicConfig # pre0)\<rparr>"
    using pre0(1) by (simp add: wa_def)
  have pre: "list_all (\<lambda>c. \<not> is_gpio c) (Logging_basicConfig # pre0)"
    using pre0(2) by simp
  show ?thesis
  proof (cases res)
    case (Inl e)
    with None load have "\<forall>sig fuel. script flt sig fuel raw_cfg w = Exited (Inl e, wb)"
      by (simp add: script_def setup_logging_def extcall_def record_call_def wa_def)
    moreover from res Inl
    have "(\<exists>msg. e = LibraryError msg) \<or> OverallModel_validate raw_cfg = Inl e" by simp
    ultimately show ?thesis using pre unfolding wb by blast
  next
    case (Inr cfg)
    with None load have "\<forall>sig fuel. script flt sig fuel raw_cfg w = main flt sig fuel cfg wb"
      by (simp add: script_def setup_logging_def extcall_def record_call_def wa_def)
    moreover from res Inr have "OverallModel_validate raw_cfg = Inr cfg" by simp
    ultimately show ?thesis using pre unfolding wb by blast
  qed
qed

lemma script_exited:
  assumes "script flt sig fuel raw_cfg w = Exited (r, w')"
  shows "(\<exists>pre. w' = w\<lparr>events := events w @ pre\<rparr> \<and> list_all (\<lambda>c. \<not> is_gpio c) pre)
       \<or> (\<exists>pre mid. events w' = events w @ pre
                         @ GPIO_setmode BOARD # mid @ [Log INFO ClosingGpio, GPIO_cleanup]
            \<and> list_all (\<lambda>c. \<not> is_gpio c) pre \<and> list_all (\<lambda>c. c \<noteq> GPIO_cleanup) mid
            \<and> channels w' = [] \<and> listeners w' = [])"
proof -
  consider (ended) e pre where
      "\<forall>sig fuel. script flt sig fuel raw_cfg w = Exited (Inl e, w\<lparr>events := events w @ pre\<rparr>)"
      "list_all (\<lambda>c. \<not> is_gpio c) pre"
    | (reached) cfg pre where
      "\<forall>sig fuel. script flt sig fuel raw_cfg w
                      = main flt sig fuel cfg (w\<lparr>events := events w @ pre\<rparr>)"
      "list_all (\<lambda>c. \<not> is_gpio c) pre"
    using script_startup [of flt raw_cfg w] by blast
  then show ?thesis
  proof cases
  case ended
  with assms have "w' = w\<lparr>events := events w @ pre\<rparr>" by simp
  with ended(2) show ?thesis by blast
next
  case reached
  note run = reached(1) and pre = reached(2)
  define wb where "wb = w\<lparr>events := events w @ pre\<rparr>"
  from assms run have "main flt sig fuel cfg wb = Exited (r, w')" by (simp add: wb_def)
  from main_exited [OF this] show ?thesis
  proof (elim disjE exE conjE)
    fix pre1 e
    assume a: "w' = wb\<lparr>events := events wb @ pre1\<rparr>"
      "list_all (\<lambda>c. \<not> is_gpio c \<and> \<not> is_write c) pre1"
    from a(2) have "list_all (\<lambda>c. \<not> is_gpio c) pre1" by (simp add: list_all_iff)
    with pre have "list_all (\<lambda>c. \<not> is_gpio c) (pre @ pre1)" by simp
    moreover have "w' = w\<lparr>events := events w @ (pre @ pre1)\<rparr>"
      using a(1) by (simp add: wb_def)
    ultimately show ?thesis by blast
  next
    fix c mid
    assume a: "events w' = events wb @ [New_InfluxDBClient (database_name c),
                                       Create_database (database_name c)]
                  @ GPIO_setmode BOARD # mid @ [Log INFO ClosingGpio, GPIO_cleanup]"
      "list_all (\<lambda>c. c \<noteq> GPIO_cleanup \<and> \<not> is_client_setup c \<and> \<not> is_write c) mid"
      and released: "channels w' = []" "listeners w' = []"
    let ?pre = "pre @ [New_InfluxDBClient (database_name c), Create_database (database_name c)]"
    from a(2) have "list_all (\<lambda>c. c \<noteq> GPIO_cleanup) mid" by (simp add: list_all_iff)
    moreover have "list_all (\<lambda>c. \<not> is_gpio c) ?pre" using pre by simp
    moreover have "events w' = events w @ ?pre
                         @ GPIO_setmode BOARD # mid @ [Log INFO ClosingGpio, GPIO_cleanup]"
      using a(1) by (simp add: wb_def)
    ultimately show ?thesis using released by blast
  qed
qed
qed

lemma script_terminated:
  assumes "script flt sig fuel raw_cfg w = Terminated w'"
  shows "\<exists>pre mid. events w' = events w @ pre @ GPIO_setmode BOARD # mid
            \<and> list_all (\<lambda>c. \<not> is_gpio c) pre \<and> list_all (\<lambda>c. c \<noteq> GPIO_cleanup) mid"
proof -
  consider (ended) e pre where
      "\<forall>sig fuel. script flt sig fuel raw_cfg w = Exited (Inl e, w\<lparr>events := events w @ pre\<rparr>)"
      "list_all (\<lambda>c. \<not> is_gpio c) pre"
    | (reached) cfg pre where
      "\<forall>sig fuel. script flt sig fuel raw_cfg w
                      = main flt sig fuel cfg (w\<lparr>events := events w @ pre\<rparr>)"
      "list_all (\<lambda>c. \<not> is_gpio c) pre"
    using script_startup [of flt raw_cfg w] by blast
  then show ?thesis
  proof cases
  case ended
  with assms show ?thesis by simp
next
  case reached
  note run = reached(1) and pre = reached(2)
  define wb where "wb = w\<lparr>events := events w @ pre\<rparr>"
  from assms run have "main flt sig fuel cfg wb = Terminated w'" by (simp add: wb_def)
  from main_terminated [OF this] obtain c mid where
    a: "events w' = events wb @ [New_InfluxDBClient (database_name c),
                                       Create_database (database_name c)]
                  @ GPIO_setmode BOARD # mid"
      "list_all (\<lambda>c. c \<noteq> GPIO_cleanup \<and> \<not> is_client_setup c \<and> \<not> is_write c) mid"
    by blast
  let ?pre = "pre @ [New_InfluxDBClient (database_name c), Create_database (database_name c)]"
  from a(2) have "list_all (\<lambda>c. c \<noteq> GPIO_cleanup) mid" by (simp add: list_all_iff)
  moreover have "list_all (\<lambda>c. \<not> is_gpio c) ?pre" using pre by simp
  moreover have "events w' = events w @ ?pre @ GPIO_setmode BOARD # mid"
    using a(1) by (simp add: wb_def)
  ultimately show ?thesis by blast
qed
qed

lemma count_list_none: "list_all (\<lambda>c. c \<noteq> x) xs \<Longrightarrow> count_list xs x = 0"
  by (induction xs) simp_all

lemma not_gpio_no_cleanup: "list_all (\<lambda>c. \<not> is_gpio c) xs \<Longrightarrow> list_all (\<lambda>c. c \<noteq> GPIO_cleanup) xs"
  by (induction xs) auto

lemma not_gpio_no_setmode: "list_all (\<lambda>c. \<not> is_gpio c) xs \<Longrightarrow> GPIO_setmode BOARD \<notin> set xs"
  by (induction xs) auto

lemma teardown_count_exited:
  assumes "script flt sig fuel raw_cfg w = Exited (r, w')"
  shows "count_list (new_events w w') GPIO_cleanup
           = (if GPIO_setmode BOARD \<in> set (new_events w w') then 1 else 0)
       \<and> (GPIO_setmode BOARD \<in> set (new_events w w') \<longrightarrow> channels w' = [] \<and> listeners w' = [])"
  using script_exited [OF assms]
proof (elim disjE exE conjE)
  fix pre
  assume a: "w' = w\<lparr>events := events w @ pre\<rparr>" "list_all (\<lambda>c. \<not> is_gpio c) pre"
  from a(1) have "events w' = events w @ pre" by simp
  then have new: "new_events w w' = pre" by (rule new_events_append)
  have "count_list pre GPIO_cleanup = 0"
    by (rule count_list_none [OF not_gpio_no_cleanup [OF a(2)]])
  moreover have "GPIO_setmode BOARD \<notin> set pre" by (rule not_gpio_no_setmode [OF a(2)])
  ultimately show ?thesis unfolding new by simp
next
  fix pre mid
  assume a: "events w' = events w @ pre
                         @ GPIO_setmode BOARD # mid @ [Log INFO ClosingGpio, GPIO_cleanup]"
    "list_all (\<lambda>c. \<not> is_gpio c) pre" "list_all (\<lambda>c. c \<noteq> GPIO_cleanup) mid"
    "channels w' = []" "listeners w' = []"
  have new: "new_events w w' = pre
                         @ GPIO_setmode BOARD # mid @ [Log INFO ClosingGpio, GPIO_cleanup]"
    by (rule new_events_append [OF a(1)])
  have "count_list pre GPIO_cleanup = 0"
    by (rule count_list_none [OF not_gpio_no_cleanup [OF a(2)]])
  moreover have "count_list mid GPIO_cleanup = 0"
    by (rule count_list_none [OF a(3)])
  ultimately show ?thesis unfolding new using a(4,5) by simp
qed

lemma teardown_count_terminated:
  assumes "script flt sig fuel raw_cfg w = Terminated w'"
  shows "count_list (new_events w w') GPIO_cleanup = 0"
proof -
  from script_terminated [OF assms] obtain pre mid where
    a: "events w' = events w @ pre @ GPIO_setmode BOARD # mid"
    "list_all (\<lambda>c. \<not> is_gpio c) pre" "list_all (\<lambda>c. c \<noteq> GPIO_cleanup) mid"
    by blast
  have new: "new_events w w' = pre @ GPIO_setmode BOARD # mid"
    by (rule new_events_append [OF a(1)])
  have "count_list pre GPIO_cleanup = 0"
    by (rule count_list_none [OF not_gpio_no_cleanup [OF a(2)]])
  moreover have "count_list mid GPIO_cleanup = 0"
    by (rule count_list_none [OF a(3)])
  ultimately show ?thesis unfolding new by simp
qed

lemma gpio_context_runs_teardown_after_body:
  assumes "init_gpio flt cfg w = (Inr (), w1)" and "body w1 = Exited (r, w2)"
  shows "gpio_context flt cfg body w = Exited (r, snd (close_gpio w2))"
  using assms by (simp add: gpio_context_def finally_close_gpio_run close_gpio_run)

lemma validate_raw_of_button: "ButtonModel_validate (raw_of_button b) = Inr b"
  by (simp add: ButtonModel_validate_def raw_of_button_def)

lemma validate_raw_of_buttons: "ButtonModel_validate_list (map raw_of_button bs) = Inr bs"
  by (induction bs) (simp_all add: validate_raw_of_button)

lemma validate_raw_of_led: "LedModel_validate (raw_of_led l) = Inr l"
  by (simp add: LedModel_validate_def raw_of_led_def)

lemma validate_raw_of_influxdb: "InfluxdbModel_validate (raw_of_influxdb i) = Inr i"
  by (simp add: InfluxdbModel_validate_def raw_of_influxdb_def)

lemma validate_raw_of: "OverallModel_validate (raw_of cfg) = Inr cfg"
  by (cases cfg)
    (simp add: OverallModel_validate_def raw_of_def optional_def validate_raw_of_buttons
      validate_raw_of_led validate_raw_of_influxdb split: option.splits)

lemma script_store_down:
  "script store_down never_signalled (Suc 0) (raw_of scenario) initial_world =
     Exited (Inl (LibraryError ''connection refused''),
           initial_world\<lparr>events :=
             [Logging_basicConfig, Open_file ''config.yaml'', Yaml_safe_load,
              Log INFO (LoadedConfiguration scenario),
              New_InfluxDBClient ''mood'', Create_database ''mood'']\<rparr>)"
  by (simp add: script_def setup_logging_def load_config_from_file_def validate_raw_of main_def
      post_to_influxdb_and_flash_led_callback_def post_to_influxdb_callback_def
      get_influxdb_client_def run_defs initial_world_def scenario_def)

lemma script_interrupted:
  "script interrupted never_signalled (Suc 0) (raw_of scenario) initial_world =
     Exited (Inl (LibraryError ''KeyboardInterrupt''), initial_world\<lparr>events := interrupted_run\<rparr>)"
  by (simp add: script_def setup_logging_def load_config_from_file_def validate_raw_of main_def
      post_to_influxdb_and_flash_led_callback_def post_to_influxdb_callback_def
      get_influxdb_client_def gpio_context_def init_gpio_def finally_close_gpio_run
      run_defs initial_world_def interrupted_def never_signalled_def interrupted_run_def
      armed_run_def scenario_def happy_def)

lemma script_signalled:
  "script no_faults signalled_at_once (Suc 0) (raw_of scenario) initial_world
     = Terminated terminated_world"
  by (simp add: script_def setup_logging_def load_config_from_file_def validate_raw_of main_def
      post_to_influxdb_and_flash_led_callback_def post_to_influxdb_callback_def
      get_influxdb_client_def gpio_context_def init_gpio_def
      run_defs initial_world_def no_faults_def signalled_at_once_def terminated_world_def
      armed_run_def scenario_def happy_def)

lemma init_gpio_scenario:
  "init_gpio no_faults scenario initial_world =
     (Inr (),
      \<lparr>events = [GPIO_setmode BOARD, GPIO_setup 5 IN (Some PUD_DOWN),
                 GPIO_add_event_detect 5 RISING happy 200, GPIO_setup 6 OUT None,
                 GPIO_output 6 LOW, Log INFO GpioInitComplete],
       gpio_mode = Some BOARD, channels = [(5, IN), (6, OUT)], listeners = [(5, happy, 200)]\<rparr>)"
  by (simp add: init_gpio_def run_defs no_faults_def scenario_def initial_world_def happy_def)

section \<open>Claims about the lifecycle\<close>

text \<open>
  C3. The claim fails on two exit paths. A run that ends before \<open>gpio_context\<close> is
  entered makes no teardown call: the handler is built before the \<^verbatim>\<open>with\<close>
  statement, so this happens when the store cannot be reached. And a run that a
  termination signal ends in the idle loop makes no teardown call either, though pins 5
  and 6 are claimed: no handler is installed for the signal, so the \<^verbatim>\<open>finally\<close>
  block does not run.
\<close>

theorem teardown_counterexample:
  "script store_down never_signalled (Suc 0) (raw_of scenario) initial_world =
     Exited (Inl (LibraryError ''connection refused''),
           initial_world\<lparr>events :=
             [Logging_basicConfig, Open_file ''config.yaml'', Yaml_safe_load,
              Log INFO (LoadedConfiguration scenario),
              New_InfluxDBClient ''mood'', Create_database ''mood'']\<rparr>)
   \<and> count_list [Logging_basicConfig, Open_file ''config.yaml'', Yaml_safe_load,
              Log INFO (LoadedConfiguration scenario),
              New_InfluxDBClient ''mood'', Create_database ''mood''] GPIO_cleanup = 0
   \<and> script no_faults signalled_at_once (Suc 0) (raw_of scenario) initial_world
       = Terminated terminated_world
   \<and> count_list (events terminated_world) GPIO_cleanup = 0
   \<and> channels terminated_world = [(5, IN), (6, OUT)]"
proof -
  have "count_list (events terminated_world) GPIO_cleanup = 0"
    by (simp add: terminated_world_def armed_run_def)
  moreover have "channels terminated_world = [(5, IN), (6, OUT)]"
    by (simp add: terminated_world_def)
  moreover have "count_list [Logging_basicConfig, Open_file ''config.yaml'', Yaml_safe_load,
              Log INFO (LoadedConfiguration scenario),
              New_InfluxDBClient ''mood'', Create_database ''mood''] GPIO_cleanup = 0"
    by simp
  ultimately show ?thesis
    using script_store_down script_signalled by (intro conjI)
qed

text \<open>
  C3, as the code has it. A process run that has ended by returning or raising made the
  teardown call exactly once if it entered \<open>gpio_context\<close> (its first call there is
  \<open>GPIO_setmode BOARD\<close>), whether \<open>init_gpio\<close> failed part-way or the idle loop was
  ended by an exception, and the run then leaves no pin claimed and no listener armed; it
  made no teardown call if it ended before. A run ended by a termination signal made no
  teardown call. Whatever the body of the \<^verbatim>\<open>with\<close> statement is, when it ends by
  returning or raising the teardown is run once after it and its result is passed on. A
  second teardown succeeds and changes nothing.
\<close>

theorem teardown_once_when_gpio_context_exits:
  "(script flt sig fuel raw_cfg w = Exited (r, w') \<longrightarrow>
      count_list (new_events w w') GPIO_cleanup
        = (if GPIO_setmode BOARD \<in> set (new_events w w') then 1 else 0)
      \<and> (GPIO_setmode BOARD \<in> set (new_events w w') \<longrightarrow> channels w' = [] \<and> listeners w' = []))
   \<and> (script flt sig fuel raw_cfg w = Terminated w' \<longrightarrow>
        count_list (new_events w w') GPIO_cleanup = 0)
   \<and> (init_gpio flt cfg w1 = (Inr (), w2) \<longrightarrow> body w2 = Exited (rb, w3) \<longrightarrow>
        gpio_context flt cfg body w1 = Exited (rb, snd (close_gpio w3)))
   \<and> fst (close_gpio (snd (close_gpio w4))) = Inr ()
   \<and> gpio_mode (snd (close_gpio (snd (close_gpio w4)))) = gpio_mode (snd (close_gpio w4))
   \<and> channels (snd (close_gpio (snd (close_gpio w4)))) = channels (snd (close_gpio w4))
   \<and> listeners (snd (close_gpio (snd (close_gpio w4)))) = listeners (snd (close_gpio w4))"
proof -
  have a: "script flt sig fuel raw_cfg w = Exited (r, w') \<longrightarrow>
      count_list (new_events w w') GPIO_cleanup
        = (if GPIO_setmode BOARD \<in> set (new_events w w') then 1 else 0)
      \<and> (GPIO_setmode BOARD \<in> set (new_events w w') \<longrightarrow> channels w' = [] \<and> listeners w' = [])"
    by (rule impI) (rule teardown_count_exited)
  have b: "script flt sig fuel raw_cfg w = Terminated w' \<longrightarrow>
        count_list (new_events w w') GPIO_cleanup = 0"
    by (rule impI) (rule teardown_count_terminated)
  have c: "init_gpio flt cfg w1 = (Inr (), w2) \<longrightarrow> body w2 = Exited (rb, w3) \<longrightarrow>
        gpio_context flt cfg body w1 = Exited (rb, snd (close_gpio w3))"
    by (intro impI) (rule gpio_context_runs_teardown_after_body)
  have d: "fst (close_gpio (snd (close_gpio w4))) = Inr ()"
    "gpio_mode (snd (close_gpio (snd (close_gpio w4)))) = gpio_mode (snd (close_gpio w4))"
    "channels (snd (close_gpio (snd (close_gpio w4)))) = channels (snd (close_gpio w4))"
    "listeners (snd (close_gpio (snd (close_gpio w4)))) = listeners (snd (close_gpio w4))"
    by (simp_all add: close_gpio_run)
  from a b c d show ?thesis by (intro conjI)
qed

theorem teardown_once_when_gpio_context_exits_witness:
  "count_list (new_events initial_world (initial_world\<lparr>events := interrupted_run\<rparr>))
         GPIO_cleanup = 1
   \<and> count_list (new_events initial_world terminated_world) GPIO_cleanup = 0
   \<and> gpio_context no_faults scenario returns_at_once initial_world
       = Exited (Inr (), snd (close_gpio (snd (init_gpio no_faults scenario initial_world))))"
proof -
  have new: "new_events initial_world (initial_world\<lparr>events := interrupted_run\<rparr>) = interrupted_run"
    by (simp add: new_events_def initial_world_def)
  have entered: "GPIO_setmode BOARD \<in> set interrupted_run"
    by (simp add: interrupted_run_def armed_run_def)
  from teardown_once_when_gpio_context_exits
    [of interrupted never_signalled "Suc 0" "raw_of scenario" initial_world
       "Inl (LibraryError ''KeyboardInterrupt'')" "initial_world\<lparr>events := interrupted_run\<rparr>"]
    script_interrupted
  have "count_list (new_events initial_world (initial_world\<lparr>events := interrupted_run\<rparr>)) GPIO_cleanup
        = (if GPIO_setmode BOARD
               \<in> set (new_events initial_world (initial_world\<lparr>events := interrupted_run\<rparr>))
           then 1 else 0)"
    by blast
  then have one: "count_list (new_events initial_world (initial_world\<lparr>events := interrupted_run\<rparr>))
         GPIO_cleanup = 1"
    unfolding new using entered by simp
  from teardown_once_when_gpio_context_exits
    [of no_faults signalled_at_once "Suc 0" "raw_of scenario" initial_world _ terminated_world]
    script_signalled
  have two: "count_list (new_events initial_world terminated_world) GPIO_cleanup = 0"
    by blast
  have init: "init_gpio no_faults scenario initial_world
      = (Inr (), snd (init_gpio no_faults scenario initial_world))"
    by (simp add: init_gpio_scenario)
  have body: "returns_at_once (snd (init_gpio no_faults scenario initial_world))
      = Exited (Inr (), snd (init_gpio no_faults scenario initial_world))"
    by (simp add: returns_at_once_def)
  from teardown_once_when_gpio_context_exits
    [of no_faults _ _ _ _ _ _ scenario initial_world
        "snd (init_gpio no_faults scenario initial_world)" returns_at_once "Inr ()"
        "snd (init_gpio no_faults scenario initial_world)"]
    init body
  have three: "gpio_context no_faults scenario returns_at_once initial_world
       = Exited (Inr (), snd (close_gpio (snd (init_gpio no_faults scenario initial_world))))"
    by blast
  from one two three show ?thesis by (intro conjI)
qed

section \<open>Claims about the time-series client\<close>

lemma no_client_setup_no_new:
  "list_all (\<lambda>c. \<not> is_client_setup c) xs \<Longrightarrow> filter is_client_new xs = []"
proof (induction xs)
  case Nil
  show ?case by simp
next
  case (Cons x xs)
  then show ?case by (cases x) simp_all
qed

lemma main_client_calls:
  assumes "main flt sig fuel config w = Exited (r, w')"
  shows "length (filter is_client_new (new_events w w')) \<le> 1
       \<and> (list_all (\<lambda>c. \<not> is_gpio c) (new_events w w')
          \<or> (\<exists>c mid. influxdb config = Some c
                \<and> new_events w w' = New_InfluxDBClient (database_name c)
                     # Create_database (database_name c) # GPIO_setmode BOARD # mid
                \<and> list_all (\<lambda>c. \<not> is_client_setup c) mid))"
  using main_exited [OF assms]
proof (elim disjE exE conjE)
  fix pre e
  assume w': "w' = w\<lparr>events := events w @ pre\<rparr>"
    and a: "list_all (\<lambda>c. \<not> is_gpio c \<and> \<not> is_write c) pre"
    "list_all (\<lambda>c. \<not> is_gpio c \<and> \<not> is_write c) pre"
    "length (filter is_client_new pre) \<le> 1"
  from w' have "events w' = events w @ pre" by simp
  then have new: "new_events w w' = pre" by (rule new_events_append)
  from a(2) have "list_all (\<lambda>c. \<not> is_gpio c) pre" by (simp add: list_all_iff)
  with a(3) show ?thesis unfolding new by simp
next
  fix c mid
  assume c: "influxdb config = Some c"
    and a: "events w' = events w @ [New_InfluxDBClient (database_name c),
                                       Create_database (database_name c)]
                  @ GPIO_setmode BOARD # mid @ [Log INFO ClosingGpio, GPIO_cleanup]"
    "list_all (\<lambda>c. c \<noteq> GPIO_cleanup \<and> \<not> is_client_setup c \<and> \<not> is_write c) mid"
  let ?mid = "mid @ [Log INFO ClosingGpio, GPIO_cleanup]"
  have new: "new_events w w' = New_InfluxDBClient (database_name c)
                     # Create_database (database_name c) # GPIO_setmode BOARD # ?mid"
    using new_events_append [OF a(1)] by simp
  from a(2) have "list_all (\<lambda>c. \<not> is_client_setup c) mid" by (simp add: list_all_iff)
  then have mid: "list_all (\<lambda>c. \<not> is_client_setup c) ?mid" by simp
  have "filter is_client_new ?mid = []" by (rule no_client_setup_no_new [OF mid])
  then have "length (filter is_client_new (new_events w w')) \<le> 1"
    unfolding new by simp
  moreover have "\<exists>c mid. influxdb config = Some c
                \<and> new_events w w' = New_InfluxDBClient (database_name c)
                     # Create_database (database_name c) # GPIO_setmode BOARD # mid
                \<and> list_all (\<lambda>c. \<not> is_client_setup c) mid"
    using c new mid by blast
  ultimately show ?thesis by blast
qed

lemma main_client_calls_terminated:
  assumes "main flt sig fuel config w = Terminated w'"
  shows "length (filter is_client_new (new_events w w')) \<le> 1
       \<and> (\<exists>c mid. influxdb config = Some c
                \<and> new_events w w' = New_InfluxDBClient (database_name c)
                     # Create_database (database_name c) # GPIO_setmode BOARD # mid
                \<and> list_all (\<lambda>c. \<not> is_client_setup c) mid)"
proof -
  from main_terminated [OF assms] obtain c mid where c: "influxdb config = Some c"
    and a: "events w' = events w @ [New_InfluxDBClient (database_name c),
                                       Create_database (database_name c)]
                  @ GPIO_setmode BOARD # mid"
    "list_all (\<lambda>c. c \<noteq> GPIO_cleanup \<and> \<not> is_client_setup c \<and> \<not> is_write c) mid"
    by blast
  have new: "new_events w w' = New_InfluxDBClient (database_name c)
                     # Create_database (database_name c) # GPIO_setmode BOARD # mid"
    using new_events_append [OF a(1)] by simp
  from a(2) have mid: "list_all (\<lambda>c. \<not> is_client_setup c) mid" by (simp add: list_all_iff)
  have "filter is_client_new mid = []" by (rule no_client_setup_no_new [OF mid])
  then have "length (filter is_client_new (new_events w w')) \<le> 1"
    unfolding new by simp
  moreover have "\<exists>c mid. influxdb config = Some c
                \<and> new_events w w' = New_InfluxDBClient (database_name c)
                     # Create_database (database_name c) # GPIO_setmode BOARD # mid
                \<and> list_all (\<lambda>c. \<not> is_client_setup c) mid"
    using c new mid by blast
  ultimately show ?thesis by blast
qed

lemma press_reuses_client:
  assumes "post_to_influxdb_and_flash_led_callback flt config w = (Inr hdl, w1)"
  shows "\<exists>c. influxdb config = Some c
       \<and> list_all (\<lambda>c. \<not> is_client_setup c)
            (new_events w2 (snd (callback_for_button button hdl p now w2)))
       \<and> filter is_write (new_events w2 (snd (callback_for_button button hdl p now w2)))
           = [Write_points (InfluxDBClient (database_name c)) [point_of c button now]]"
proof -
  obtain c where c: "influxdb config = Some c"
    and hdl: "hdl = influxdb_and_flash_led_callback flt config
                (influxdb_callback flt (Some c) (InfluxDBClient (database_name c)))"
    using handler_construction [OF assms] by blast
  obtain post where post:
    "events (snd (callback_for_button button hdl p now w2))
       = events w2 @ press_log button p
           @ [Log DEBUG (UploadingMeasurement (point_of c button now)),
              Write_points (InfluxDBClient (database_name c)) [point_of c button now]] @ post"
    "list_all (\<lambda>c. \<not> is_write c \<and> \<not> is_client_setup c) post"
    unfolding hdl using callback_calls by blast
  from post(2) have p1: "list_all (\<lambda>c. \<not> is_write c) post"
    and p2: "list_all (\<lambda>c. \<not> is_client_setup c) post"
    by (simp_all add: list_all_iff)
  have new: "new_events w2 (snd (callback_for_button button hdl p now w2))
      = press_log button p
           @ [Log DEBUG (UploadingMeasurement (point_of c button now)),
              Write_points (InfluxDBClient (database_name c)) [point_of c button now]] @ post"
    by (rule new_events_append [OF post(1)])
  have "list_all (\<lambda>c. \<not> is_client_setup c) (press_log button p)"
    by (simp add: press_log_def)
  with p2 have a: "list_all (\<lambda>c. \<not> is_client_setup c)
            (new_events w2 (snd (callback_for_button button hdl p now w2)))"
    unfolding new by simp
  have "filter is_write (press_log button p) = []"
    by (rule filter_no_write [OF press_log_no_write])
  with filter_no_write [OF p1]
  have b: "filter is_write (new_events w2 (snd (callback_for_button button hdl p now w2)))
           = [Write_points (InfluxDBClient (database_name c)) [point_of c button now]]"
    unfolding new by simp
  from c a b show ?thesis by blast
qed

lemma construction_failure_aborts:
  assumes "post_to_influxdb_and_flash_led_callback flt config w = (Inl e, w1)"
  shows "main flt sig fuel config w = Exited (Inl e, w1)
       \<and> list_all (\<lambda>c. \<not> is_gpio c) (new_events w w1)"
proof -
  from construction_failed [OF assms] obtain pre where
    pre: "w1 = w\<lparr>events := events w @ pre\<rparr>" "list_all (\<lambda>c. \<not> is_gpio c \<and> \<not> is_write c) pre"
    by blast
  from pre(1) have "events w1 = events w @ pre" by simp
  then have "new_events w w1 = pre" by (rule new_events_append)
  moreover from pre(2) have "list_all (\<lambda>c. \<not> is_gpio c) pre" by (simp add: list_all_iff)
  ultimately show ?thesis using main_failed_construction [OF assms] by simp
qed

text \<open>
  C10. In a run of \<open>main\<close> that has ended, by returning or raising or by a termination
  signal, the client was constructed at most once; if any GPIO call was made at all, the
  run began with the construction of the client and the database-creation call, and
  neither was repeated afterwards. The handler that startup returns makes no client call
  on a press other than the write, on the client built at startup. If the construction
  fails, \<open>main\<close> ends with that exception whatever the fuel, before any GPIO call.
\<close>

theorem client_built_once_at_startup:
  "(main flt sig fuel config w = Exited (r, w') \<longrightarrow>
      length (filter is_client_new (new_events w w')) \<le> 1
      \<and> (list_all (\<lambda>c. \<not> is_gpio c) (new_events w w')
          \<or> (\<exists>c mid. influxdb config = Some c
                \<and> new_events w w' = New_InfluxDBClient (database_name c)
                     # Create_database (database_name c) # GPIO_setmode BOARD # mid
                \<and> list_all (\<lambda>c. \<not> is_client_setup c) mid)))
   \<and> (main flt sig fuel config w = Terminated w' \<longrightarrow>
      length (filter is_client_new (new_events w w')) \<le> 1
      \<and> (\<exists>c mid. influxdb config = Some c
                \<and> new_events w w' = New_InfluxDBClient (database_name c)
                     # Create_database (database_name c) # GPIO_setmode BOARD # mid
                \<and> list_all (\<lambda>c. \<not> is_client_setup c) mid))
   \<and> (post_to_influxdb_and_flash_led_callback flt config w = (Inr hdl, w1) \<longrightarrow>
        (\<exists>c. influxdb config = Some c
           \<and> list_all (\<lambda>c. \<not> is_client_setup c)
                (new_events w2 (snd (callback_for_button button hdl p now w2)))
           \<and> filter is_write (new_events w2 (snd (callback_for_button button hdl p now w2)))
               = [Write_points (InfluxDBClient (database_name c)) [point_of c button now]]))
   \<and> (post_to_influxdb_and_flash_led_callback flt config w = (Inl e, w1) \<longrightarrow>
        main flt sig fuel config w = Exited (Inl e, w1)
        \<and> list_all (\<lambda>c. \<not> is_gpio c) (new_events w w1))"
proof -
  have a: "main flt sig fuel config w = Exited (r, w') \<longrightarrow>
      length (filter is_client_new (new_events w w')) \<le> 1
      \<and> (list_all (\<lambda>c. \<not> is_gpio c) (new_events w w')
          \<or> (\<exists>c mid. influxdb config = Some c
                \<and> new_events w w' = New_InfluxDBClient (database_name c)
                     # Create_database (database_name c) # GPIO_setmode BOARD # mid
                \<and> list_all (\<lambda>c. \<not> is_client_setup c) mid))"
    by (rule impI) (rule main_client_calls)
  have t: "main flt sig fuel config w = Terminated w' \<longrightarrow>
      length (filter is_client_new (new_events w w')) \<le> 1
      \<and> (\<exists>c mid. influxdb config = Some c
                \<and> new_events w w' = New_InfluxDBClient (database_name c)
                     # Create_database (database_name c) # GPIO_setmode BOARD # mid
                \<and> list_all (\<lambda>c. \<not> is_client_setup c) mid)"
    by (rule impI) (rule main_client_calls_terminated)
  have b: "post_to_influxdb_and_flash_led_callback flt config w = (Inr hdl, w1) \<longrightarrow>
        (\<exists>c. influxdb config = Some c
           \<and> list_all (\<lambda>c. \<not> is_client_setup c)
                (new_events w2 (snd (callback_for_button button hdl p now w2)))
           \<and> filter is_write (new_events w2 (snd (callback_for_button button hdl p now w2)))
               = [Write_points (InfluxDBClient (database_name c)) [point_of c button now]])"
    by (rule impI) (rule press_reuses_client)
  have c: "post_to_influxdb_and_flash_led_callback flt config w = (Inl e, w1) \<longrightarrow>
        main flt sig fuel config w = Exited (Inl e, w1)
        \<and> list_all (\<lambda>c. \<not> is_gpio c) (new_events w w1)"
    by (rule impI) (rule construction_failure_aborts)
  show ?thesis by (rule conjI [OF a conjI [OF t conjI [OF b c]]])
qed

lemma main_interrupted:
  "main interrupted never_signalled (Suc 0) scenario initial_world =
     Exited (Inl (LibraryError ''KeyboardInterrupt''),
           initial_world\<lparr>events :=
             [New_InfluxDBClient ''mood'', Create_database ''mood'',
              GPIO_setmode BOARD, GPIO_setup 5 IN (Some PUD_DOWN),
              GPIO_add_event_detect 5 RISING happy 200, GPIO_setup 6 OUT None,
              GPIO_output 6 LOW, Log INFO GpioInitComplete, Time_sleep 300000,
              Log INFO ClosingGpio, GPIO_cleanup]\<rparr>)"
  by (simp add: main_def
      post_to_influxdb_and_flash_led_callback_def post_to_influxdb_callback_def
      get_influxdb_client_def gpio_context_def init_gpio_def finally_close_gpio_run
      run_defs initial_world_def interrupted_def never_signalled_def scenario_def happy_def)

lemma main_signalled:
  "main no_faults signalled_at_once (Suc 0) scenario initial_world =
     Terminated
       \<lparr>events =
          [New_InfluxDBClient ''mood'', Create_database ''mood'',
           GPIO_setmode BOARD, GPIO_setup 5 IN (Some PUD_DOWN),
           GPIO_add_event_detect 5 RISING happy 200, GPIO_setup 6 OUT None,
           GPIO_output 6 LOW, Log INFO GpioInitComplete, Time_sleep 300000],
        gpio_mode = Some BOARD, channels = [(5, IN), (6, OUT)], listeners = [(5, happy, 200)]\<rparr>"
  by (simp add: main_def
      post_to_influxdb_and_flash_led_callback_def post_to_influxdb_callback_def
      get_influxdb_client_def gpio_context_def init_gpio_def
      run_defs initial_world_def no_faults_def signalled_at_once_def scenario_def happy_def)

lemma built_handler_interrupted:
  "post_to_influxdb_and_flash_led_callback interrupted scenario initial_world =
     (Inr (built_handler interrupted scenario (InfluxdbModel ''mood'' ''pi_mood'')),
      initial_world\<lparr>events := [New_InfluxDBClient ''mood'', Create_database ''mood'']\<rparr>)"
  by (simp add: post_to_influxdb_and_flash_led_callback_def post_to_influxdb_callback_def
      get_influxdb_client_def andthen_def extcall_def record_call_def interrupted_def scenario_def
      initial_world_def built_handler_def)

lemma construction_store_down:
  "post_to_influxdb_and_flash_led_callback store_down scenario initial_world =
     (Inl (LibraryError ''connection refused''),
      initial_world\<lparr>events := [New_InfluxDBClient ''mood'', Create_database ''mood'']\<rparr>)"
  by (simp add: post_to_influxdb_and_flash_led_callback_def post_to_influxdb_callback_def
      get_influxdb_client_def andthen_def extcall_def record_call_def scenario_def
      initial_world_def)

theorem client_built_once_at_startup_witness:
  "length (filter is_client_new
      [New_InfluxDBClient ''mood'', Create_database ''mood'',
       GPIO_setmode BOARD, GPIO_setup 5 IN (Some PUD_DOWN),
       GPIO_add_event_detect 5 RISING happy 200, GPIO_setup 6 OUT None,
       GPIO_output 6 LOW, Log INFO GpioInitComplete, Time_sleep 300000,
       Log INFO ClosingGpio, GPIO_cleanup]) \<le> 1
   \<and> length (filter is_client_new
      [New_InfluxDBClient ''mood'', Create_database ''mood'',
       GPIO_setmode BOARD, GPIO_setup 5 IN (Some PUD_DOWN),
       GPIO_add_event_detect 5 RISING happy 200, GPIO_setup 6 OUT None,
       GPIO_output 6 LOW, Log INFO GpioInitComplete, Time_sleep 300000]) \<le> 1
   \<and> list_all (\<lambda>c. \<not> is_client_setup c)
       (new_events initial_world
          (snd (callback_for_button happy
                  (built_handler interrupted scenario (InfluxdbModel ''mood'' ''pi_mood''))
                  5 0 initial_world)))
   \<and> main store_down never_signalled (Suc 0) scenario initial_world =
       Exited (Inl (LibraryError ''connection refused''),
             initial_world\<lparr>events := [New_InfluxDBClient ''mood'', Create_database ''mood'']\<rparr>)"
proof (intro conjI)
  let ?w' = "initial_world\<lparr>events :=
             [New_InfluxDBClient ''mood'', Create_database ''mood'',
              GPIO_setmode BOARD, GPIO_setup 5 IN (Some PUD_DOWN),
              GPIO_add_event_detect 5 RISING happy 200, GPIO_setup 6 OUT None,
              GPIO_output 6 LOW, Log INFO GpioInitComplete, Time_sleep 300000,
              Log INFO ClosingGpio, GPIO_cleanup]\<rparr>"
  from client_built_once_at_startup
    [of interrupted never_signalled "Suc 0" scenario initial_world
        "Inl (LibraryError ''KeyboardInterrupt'')" ?w']
    main_interrupted
  have "length (filter is_client_new (new_events initial_world ?w')) \<le> 1" by blast
  then show "length (filter is_client_new
      [New_InfluxDBClient ''mood'', Create_database ''mood'',
       GPIO_setmode BOARD, GPIO_setup 5 IN (Some PUD_DOWN),
       GPIO_add_event_detect 5 RISING happy 200, GPIO_setup 6 OUT None,
       GPIO_output 6 LOW, Log INFO GpioInitComplete, Time_sleep 300000,
       Log INFO ClosingGpio, GPIO_cleanup]) \<le> 1"
    by (simp add: new_events_def initial_world_def)
next
  let ?w' = "\<lparr>events =
          [New_InfluxDBClient ''mood'', Create_database ''mood'',
           GPIO_setmode BOARD, GPIO_setup 5 IN (Some PUD_DOWN),
           GPIO_add_event_detect 5 RISING happy 200, GPIO_setup 6 OUT None,
           GPIO_output 6 LOW, Log INFO GpioInitComplete, Time_sleep 300000],
        gpio_mode = Some BOARD, channels = [(5, IN), (6, OUT)], listeners = [(5, happy, 200)]\<rparr>"
  from client_built_once_at_startup
    [of no_faults signalled_at_once "Suc 0" scenario initial_world _ ?w']
    main_signalled
  have "length (filter is_client_new (new_events initial_world ?w')) \<le> 1" by blast
  then show "length (filter is_client_new
      [New_InfluxDBClient ''mood'', Create_database ''mood'',
       GPIO_setmode BOARD, GPIO_setup 5 IN (Some PUD_DOWN),
       GPIO_add_event_detect 5 RISING happy 200, GPIO_setup 6 OUT None,
       GPIO_output 6 LOW, Log INFO GpioInitComplete, Time_sleep 300000]) \<le> 1"
    by (simp add: new_events_def initial_world_def)
next
  from client_built_once_at_startup
    [of interrupted _ _ scenario initial_world _ _
        "built_handler interrupted scenario (InfluxdbModel ''mood'' ''pi_mood'')"
        "initial_world\<lparr>events := [New_InfluxDBClient ''mood'', Create_database ''mood'']\<rparr>"
        initial_world happy 5 0]
    built_handler_interrupted
  show "list_all (\<lambda>c. \<not> is_client_setup c)
       (new_events initial_world
          (snd (callback_for_button happy
                  (built_handler interrupted scenario (InfluxdbModel ''mood'' ''pi_mood''))
                  5 0 initial_world)))"
    by blast
next
  from client_built_once_at_startup
    [of store_down never_signalled "Suc 0" scenario initial_world _ _ _
        "initial_world\<lparr>events := [New_InfluxDBClient ''mood'', Create_database ''mood'']\<rparr>"
        _ _ _ _ "LibraryError ''connection refused''"]
    construction_store_down
  show "main store_down never_signalled (Suc 0) scenario initial_world =
       Exited (Inl (LibraryError ''connection refused''),
             initial_world\<lparr>events := [New_InfluxDBClient ''mood'', Create_database ''mood'']\<rparr>)"
    by blast
qed

section \<open>Claims about the configuration\<close>

lemma andthen_InrE:
  assumes "andthen p q w = (Inr u, w')"
  obtains u1 w1 where "p w = (Inr u1, w1)" and "q w1 = (Inr u, w')"
proof (cases "p w")
  case (Pair r w1)
  show ?thesis
  proof (cases r)
    case (Inl e)
    with Pair assms show ?thesis by (simp add: andthen_def)
  next
    case (Inr u1)
    with Pair assms have "q w1 = (Inr u, w')" by (simp add: andthen_def)
    with Pair Inr that show ?thesis by blast
  qed
qed

lemma for_each_Cons_InrE:
  assumes "for_each f (x # xs) w = (Inr u, w')"
  obtains u1 w1 where "f x w = (Inr u1, w1)" and "for_each f xs w1 = (Inr u, w')"
proof (cases "f x w")
  case (Pair r w1)
  show ?thesis
  proof (cases r)
    case (Inl e)
    with Pair assms show ?thesis by simp
  next
    case (Inr u1)
    with Pair assms have "for_each f xs w1 = (Inr u, w')" by simp
    with Pair Inr that show ?thesis by blast
  qed
qed

lemma GPIO_setup_claims:
  assumes "GPIO_setup_call flt p d pud w = (Inr u, w1)"
  shows "p \<notin> set (map fst (channels w)) \<and> channels w1 = channels w @ [(p, d)]"
  using assms
  by (auto simp: GPIO_setup_call_def extcall_def record_call_def split: if_splits option.splits)

lemma GPIO_add_event_detect_keeps_channels:
  assumes "GPIO_add_event_detect_call flt p e b bt w = (Inr u, w1)"
  shows "channels w1 = channels w"
  using assms
  by (auto simp: GPIO_add_event_detect_call_def extcall_def record_call_def split: option.splits)

lemma arm_button_claims:
  assumes "andthen (GPIO_setup_call flt (ButtonModel.pin b) IN pud)
             (GPIO_add_event_detect_call flt (ButtonModel.pin b) RISING b bt) w = (Inr u, w')"
  shows "ButtonModel.pin b \<notin> set (map fst (channels w))
       \<and> channels w' = channels w @ [(ButtonModel.pin b, IN)]"
proof -
  from assms obtain u1 w1 where
    s: "GPIO_setup_call flt (ButtonModel.pin b) IN pud w = (Inr u1, w1)"
    and d: "GPIO_add_event_detect_call flt (ButtonModel.pin b) RISING b bt w1 = (Inr u, w')"
    by (rule andthen_InrE)
  from GPIO_setup_claims [OF s] GPIO_add_event_detect_keeps_channels [OF d]
  show ?thesis by simp
qed

lemma arm_buttons_distinct:
  assumes "for_each
             (\<lambda>button.
                andthen (GPIO_setup_call flt (ButtonModel.pin button) IN pud)
                  (GPIO_add_event_detect_call flt (ButtonModel.pin button) RISING button bt))
             bs w = (Inr u, w')"
  shows "distinct (map ButtonModel.pin bs)
       \<and> set (map ButtonModel.pin bs) \<inter> set (map fst (channels w)) = {}"
  using assms
proof (induction bs arbitrary: w)
  case Nil
  show ?case by simp
next
  case (Cons b bs)
  let ?f = "\<lambda>button.
                andthen (GPIO_setup_call flt (ButtonModel.pin button) IN pud)
                  (GPIO_add_event_detect_call flt (ButtonModel.pin button) RISING button bt)"
  from Cons.prems obtain u1 w1 where
    step: "?f b w = (Inr u1, w1)" and rest: "for_each ?f bs w1 = (Inr u, w')"
    by (rule for_each_Cons_InrE)
  from arm_button_claims [OF step]
  have fresh: "ButtonModel.pin b \<notin> set (map fst (channels w))"
    and ch: "channels w1 = channels w @ [(ButtonModel.pin b, IN)]"
    by simp_all
  from Cons.IH [OF rest]
  have d: "distinct (map ButtonModel.pin bs)"
    and i: "set (map ButtonModel.pin bs) \<inter> set (map fst (channels w1)) = {}"
    by simp_all
  from i ch have "ButtonModel.pin b \<notin> set (map ButtonModel.pin bs)"
    and "set (map ButtonModel.pin bs) \<inter> set (map fst (channels w)) = {}"
    by auto
  with d fresh show ?case by auto
qed

lemma init_gpio_duplicate_fails:
  assumes "buttons cfg = Some bs" and "\<not> distinct (map ButtonModel.pin bs)"
  shows "\<exists>e. fst (init_gpio flt cfg w) = Inl e"
proof (cases "fst (init_gpio flt cfg w)")
  case (Inl e)
  then show ?thesis by blast
next
  case (Inr u)
  then have "init_gpio flt cfg w = (Inr u, snd (init_gpio flt cfg w))"
    by (cases "init_gpio flt cfg w") simp
  then obtain u1 w1 where "after_setmode flt cfg w1 = (Inr u, snd (init_gpio flt cfg w))"
    unfolding init_gpio_split by (rule andthen_InrE)
  then obtain u2 w2 where "for_each
             (\<lambda>button.
                andthen (GPIO_setup_call flt (ButtonModel.pin button) IN (Some PUD_DOWN))
                  (GPIO_add_event_detect_call flt (ButtonModel.pin button) RISING button
                     (bouncetime cfg)))
             bs w1 = (Inr u2, w2)"
    unfolding after_setmode_def assms(1) option.case by (rule andthen_InrE)
  from arm_buttons_distinct [OF this] assms(2) show ?thesis by simp
qed

lemma andthen_Inl: "p w = (Inl e, w') \<Longrightarrow> andthen p q w = (Inl e, w')"
  by (simp add: andthen_def)

lemma arm_buttons_duplicate_fails:
  assumes "\<not> distinct (map ButtonModel.pin bs)"
  shows "\<exists>e. fst (for_each
             (\<lambda>button.
                andthen (GPIO_setup_call flt (ButtonModel.pin button) IN pud)
                  (GPIO_add_event_detect_call flt (ButtonModel.pin button) RISING button bt))
             bs w) = Inl e"
proof -
  let ?loop = "for_each
             (\<lambda>button.
                andthen (GPIO_setup_call flt (ButtonModel.pin button) IN pud)
                  (GPIO_add_event_detect_call flt (ButtonModel.pin button) RISING button bt))
             bs"
  show ?thesis
  proof (cases "fst (?loop w)")
    case (Inl e)
    then show ?thesis by blast
  next
    case (Inr u)
    then have "?loop w = (Inr u, snd (?loop w))"
      by (cases "?loop w") simp
    from arm_buttons_distinct [OF this] assms show ?thesis by simp
  qed
qed

lemma raises_only_extcall_no_faults: "raises_only P (extcall no_faults c eff)"
  by (simp add: raises_only_def extcall_def no_faults_def)

lemma raises_only_GPIO_setup_no_faults:
  "raises_only (\<lambda>e. e = HardwareFault) (GPIO_setup_call no_faults p d pud)"
  by (simp add: raises_only_def GPIO_setup_call_def extcall_def no_faults_def)

lemma raises_only_arm_buttons_no_faults:
  "raises_only (\<lambda>e. e = HardwareFault)
     (for_each
        (\<lambda>button.
           andthen (GPIO_setup_call no_faults (ButtonModel.pin button) IN pud)
             (GPIO_add_event_detect_call no_faults (ButtonModel.pin button) RISING button bt))
        bs)"
  unfolding GPIO_add_event_detect_call_def
  by (intro raises_only_for_each raises_only_andthen raises_only_GPIO_setup_no_faults
      raises_only_extcall_no_faults)

lemma init_gpio_no_faults_duplicate:
  assumes "buttons cfg = Some bs" and "\<not> distinct (map ButtonModel.pin bs)"
  shows "fst (init_gpio no_faults cfg w) = Inl HardwareFault"
proof -
  let ?loop = "for_each
             (\<lambda>button.
                andthen (GPIO_setup_call no_faults (ButtonModel.pin button) IN (Some PUD_DOWN))
                  (GPIO_add_event_detect_call no_faults (ButtonModel.pin button) RISING button
                     (bouncetime cfg)))
             bs"
  define w1 where "w1 = w\<lparr>events := events w @ [GPIO_setmode BOARD], gpio_mode := Some BOARD\<rparr>"
  have nf: "no_faults (events w) (GPIO_setmode BOARD) = None"
    by (simp add: no_faults_def)
  have run: "init_gpio no_faults cfg w = after_setmode no_faults cfg w1"
    unfolding w1_def by (rule init_gpio_run_ok [where flt=no_faults and w=w, OF nf])
  obtain e where e: "fst (?loop w1) = Inl e"
    using arm_buttons_duplicate_fails [OF assms(2), of no_faults "Some PUD_DOWN" "bouncetime cfg" w1]
    by blast
  have "e = HardwareFault"
    by (rule raises_onlyD [OF raises_only_arm_buttons_no_faults e])
  with e have "?loop w1 = (Inl HardwareFault, snd (?loop w1))"
    by (cases "?loop w1") simp
  then have "after_setmode no_faults cfg w1 = (Inl HardwareFault, snd (?loop w1))"
    unfolding after_setmode_def assms(1) option.case by (rule andthen_Inl)
  then show ?thesis unfolding run by simp
qed

lemma script_no_faults_reaches_main:
  assumes "OverallModel_validate raw_cfg = Inr cfg"
  shows "script no_faults sig fuel raw_cfg w =
           main no_faults sig fuel cfg
             (w\<lparr>events := events w @ [Logging_basicConfig, Open_file ''config.yaml'',
                  Yaml_safe_load, Log INFO (LoadedConfiguration cfg)]\<rparr>)"
  using assms
  by (simp add: script_def setup_logging_def load_config_from_file_def andthen_def extcall_def
      record_call_def no_faults_def)

lemma duplicate_pin_run_fails:
  assumes valid: "OverallModel_validate raw_cfg = Inr cfg"
    and bs: "buttons cfg = Some bs" and dup: "\<not> distinct (map ButtonModel.pin bs)"
    and fresh: "listeners w = []"
  shows "\<exists>e w'. script flt sig fuel raw_cfg w = Exited (Inl e, w') \<and> e \<noteq> DataError
           \<and> listeners w' = []"
proof -
  consider (ended) e pre where
      "\<forall>sig fuel. script flt sig fuel raw_cfg w = Exited (Inl e, w\<lparr>events := events w @ pre\<rparr>)"
      "(\<exists>msg. e = LibraryError msg) \<or> OverallModel_validate raw_cfg = Inl e"
    | (reached) cfg' pre where
      "\<forall>sig fuel. script flt sig fuel raw_cfg w
                      = main flt sig fuel cfg' (w\<lparr>events := events w @ pre\<rparr>)"
      "OverallModel_validate raw_cfg = Inr cfg'"
    using script_startup [of flt raw_cfg w] by blast
  then show ?thesis
  proof cases
    case ended
    from ended(2) valid have "e \<noteq> DataError" by auto
    moreover have "listeners (w\<lparr>events := events w @ pre\<rparr>) = []" using fresh by simp
    ultimately show ?thesis using ended(1) by blast
  next
    case reached
    from reached(2) valid have cfg': "cfg' = cfg" by simp
    define wb where "wb = w\<lparr>events := events w @ pre\<rparr>"
    have run: "script flt sig fuel raw_cfg w = main flt sig fuel cfg wb"
      using reached(1) by (simp add: cfg' wb_def)
    obtain res w1 where cons: "post_to_influxdb_and_flash_led_callback flt cfg wb = (res, w1)"
      by (cases "post_to_influxdb_and_flash_led_callback flt cfg wb")
    show ?thesis
    proof (cases res)
      case (Inl e)
      from construction_failed [OF cons [unfolded Inl]] obtain pre1 where
        "e \<noteq> DataError" "w1 = wb\<lparr>events := events wb @ pre1\<rparr>"
        by blast
      then have "e \<noteq> DataError" "listeners w1 = []"
        using fresh by (simp_all add: wb_def)
      moreover have "script flt sig fuel raw_cfg w = Exited (Inl e, w1)"
        unfolding run by (rule main_failed_construction [OF cons [unfolded Inl]])
      ultimately show ?thesis by blast
    next
      case (Inr hdl)
      have main: "script flt sig fuel raw_cfg w
          = gpio_context flt cfg (armed_loop flt sig fuel) w1"
        unfolding run by (rule main_after_construction [OF cons [unfolded Inr]])
      obtain e where "fst (init_gpio flt cfg w1) = Inl e"
        using init_gpio_duplicate_fails [OF bs dup] by blast
      then have init: "init_gpio flt cfg w1 = (Inl e, snd (init_gpio flt cfg w1))"
        by (cases "init_gpio flt cfg w1") simp
      have "e \<noteq> DataError" by (rule init_gpio_not_DataError [OF init])
      moreover have "script flt sig fuel raw_cfg w =
          Exited (Inl e, (snd (init_gpio flt cfg w1))
                   \<lparr>events := events (snd (init_gpio flt cfg w1)) @ [Log INFO ClosingGpio, GPIO_cleanup],
                    gpio_mode := None, channels := [], listeners := []\<rparr>)"
        unfolding main by (rule gpio_context_init_failed [OF init])
      ultimately show ?thesis by auto
    qed
  qed
qed

lemma duplicate_pin_run_no_faults:
  assumes valid: "OverallModel_validate raw_cfg = Inr cfg"
    and bs: "buttons cfg = Some bs" and dup: "\<not> distinct (map ButtonModel.pin bs)"
    and c: "influxdb cfg = Some c"
  shows "\<exists>w'. script no_faults sig fuel raw_cfg w = Exited (Inl HardwareFault, w')
           \<and> channels w' = [] \<and> listeners w' = []"
proof -
  define wb where "wb = w\<lparr>events := events w @ [Logging_basicConfig, Open_file ''config.yaml'',
                  Yaml_safe_load, Log INFO (LoadedConfiguration cfg)]\<rparr>"
  define w1 where "w1 = wb\<lparr>events := events wb @ [New_InfluxDBClient (database_name c),
                                     Create_database (database_name c)]\<rparr>"
  have run: "script no_faults sig fuel raw_cfg w = main no_faults sig fuel cfg wb"
    unfolding wb_def by (rule script_no_faults_reaches_main [OF valid])
  have n1: "no_faults (events wb) (New_InfluxDBClient (database_name c)) = None"
    and n2: "no_faults (events wb @ [New_InfluxDBClient (database_name c)])
           (Create_database (database_name c)) = None"
    by (simp_all add: no_faults_def)
  have cons: "post_to_influxdb_and_flash_led_callback no_faults cfg wb
      = (Inr (built_handler no_faults cfg c), w1)"
    unfolding w1_def by (rule construction_ok [where flt=no_faults and w=wb, OF c n1 n2])
  have main: "script no_faults sig fuel raw_cfg w
      = gpio_context no_faults cfg (armed_loop no_faults sig fuel) w1"
    unfolding run by (rule main_after_construction [OF cons])
  have "fst (init_gpio no_faults cfg w1) = Inl HardwareFault"
    by (rule init_gpio_no_faults_duplicate [OF bs dup])
  then have init: "init_gpio no_faults cfg w1 = (Inl HardwareFault, snd (init_gpio no_faults cfg w1))"
    by (cases "init_gpio no_faults cfg w1") simp
  have "script no_faults sig fuel raw_cfg w =
          Exited (Inl HardwareFault, (snd (init_gpio no_faults cfg w1))
                   \<lparr>events := events (snd (init_gpio no_faults cfg w1))
                                @ [Log INFO ClosingGpio, GPIO_cleanup],
                    gpio_mode := None, channels := [], listeners := []\<rparr>)"
    unfolding main by (rule gpio_context_init_failed [OF init])
  then show ?thesis by auto
qed

lemma script_twins:
  "script no_faults never_signalled (Suc 0) (raw_of twins) initial_world =
     Exited (Inl HardwareFault,
       initial_world\<lparr>events :=
         [Logging_basicConfig, Open_file ''config.yaml'', Yaml_safe_load,
          Log INFO (LoadedConfiguration twins),
          New_InfluxDBClient ''mood'', Create_database ''mood'',
          GPIO_setmode BOARD, GPIO_setup 5 IN (Some PUD_DOWN),
          GPIO_add_event_detect 5 RISING happy 200, GPIO_setup 5 IN (Some PUD_DOWN),
          Log INFO ClosingGpio, GPIO_cleanup]\<rparr>)"
  by (simp add: script_def setup_logging_def load_config_from_file_def validate_raw_of main_def
      post_to_influxdb_and_flash_led_callback_def post_to_influxdb_callback_def
      get_influxdb_client_def gpio_context_def init_gpio_def finally_close_gpio_run
      run_defs initial_world_def no_faults_def twins_def happy_def sad_def)

text \<open>
  C4. The claim fails in the kind of the error: nothing in the program compares pins,
  so the configuration with two buttons on pin 5 passes validation. The run fails later,
  in \<open>init_gpio\<close>, when the GPIO facility refuses to configure pin 5 a second time: it
  ends with \<open>HardwareFault\<close>, after the first listener was armed and the teardown has
  released it.
\<close>

theorem duplicate_pin_counterexample:
  "OverallModel_validate (raw_of twins) = Inr twins
   \<and> script no_faults never_signalled (Suc 0) (raw_of twins) initial_world =
     Exited (Inl HardwareFault,
       initial_world\<lparr>events :=
         [Logging_basicConfig, Open_file ''config.yaml'', Yaml_safe_load,
          Log INFO (LoadedConfiguration twins),
          New_InfluxDBClient ''mood'', Create_database ''mood'',
          GPIO_setmode BOARD, GPIO_setup 5 IN (Some PUD_DOWN),
          GPIO_add_event_detect 5 RISING happy 200, GPIO_setup 5 IN (Some PUD_DOWN),
          Log INFO ClosingGpio, GPIO_cleanup]\<rparr>)"
  by (rule conjI [OF validate_raw_of script_twins])

text \<open>
  C4, as the code has it. Validation accepts every configuration whose fields are all
  given, whatever its pins. For a validated configuration in which two buttons share a
  pin, every run started with no listener armed ends with an exception, whatever the
  fuel: the idle loop is never reached. The exception is never the validation error, and
  no listener is left armed. When no collaborator call fails for another reason, the
  exception is the \<open>HardwareFault\<close> with which the GPIO facility refuses the second
  configuration of the shared pin, and the teardown has released every pin.
\<close>

theorem duplicate_pin_fails_in_init_gpio:
  "OverallModel_validate (raw_of cfg0) = Inr cfg0
   \<and> (OverallModel_validate raw_cfg = Inr cfg \<longrightarrow> buttons cfg = Some bs \<longrightarrow>
        \<not> distinct (map ButtonModel.pin bs) \<longrightarrow> listeners w = [] \<longrightarrow>
        (\<exists>e w'. script flt sig fuel raw_cfg w = Exited (Inl e, w') \<and> e \<noteq> DataError
           \<and> listeners w' = []))
   \<and> (OverallModel_validate raw_cfg = Inr cfg \<longrightarrow> buttons cfg = Some bs \<longrightarrow>
        \<not> distinct (map ButtonModel.pin bs) \<longrightarrow> influxdb cfg = Some c \<longrightarrow>
        (\<exists>w'. script no_faults sig fuel raw_cfg w = Exited (Inl HardwareFault, w')
           \<and> channels w' = [] \<and> listeners w' = []))"
proof -
  have b: "OverallModel_validate raw_cfg = Inr cfg \<longrightarrow> buttons cfg = Some bs \<longrightarrow>
        \<not> distinct (map ButtonModel.pin bs) \<longrightarrow> listeners w = [] \<longrightarrow>
        (\<exists>e w'. script flt sig fuel raw_cfg w = Exited (Inl e, w') \<and> e \<noteq> DataError
           \<and> listeners w' = [])"
    by (intro impI) (rule duplicate_pin_run_fails)
  have c: "OverallModel_validate raw_cfg = Inr cfg \<longrightarrow> buttons cfg = Some bs \<longrightarrow>
        \<not> distinct (map ButtonModel.pin bs) \<longrightarrow> influxdb cfg = Some c \<longrightarrow>
        (\<exists>w'. script no_faults sig fuel raw_cfg w = Exited (Inl HardwareFault, w')
           \<and> channels w' = [] \<and> listeners w' = [])"
    by (intro impI) (rule duplicate_pin_run_no_faults)
  show ?thesis by (rule conjI [OF validate_raw_of conjI [OF b c]])
qed

theorem duplicate_pin_fails_in_init_gpio_witness:
  "(\<exists>w'. script no_faults never_signalled (Suc 0) (raw_of twins) initial_world
            = Exited (Inl HardwareFault, w')
         \<and> channels w' = [] \<and> listeners w' = [])
   \<and> (\<exists>e w'. script interrupted never_signalled (Suc 0) (raw_of twins) initial_world
            = Exited (Inl e, w') \<and> e \<noteq> DataError \<and> listeners w' = [])"
proof -
  have v: "OverallModel_validate (raw_of twins) = Inr twins" by (rule validate_raw_of)
  have bs: "buttons twins = Some [happy, sad]"
    and c: "influxdb twins = Some (InfluxdbModel ''mood'' ''pi_mood'')"
    by (simp_all add: twins_def)
  have dup: "\<not> distinct (map ButtonModel.pin [happy, sad])"
    by (simp add: happy_def sad_def)
  have fresh: "listeners initial_world = []"
    by (simp add: initial_world_def)
  note inst = duplicate_pin_fails_in_init_gpio
    [of _ "raw_of twins" twins "[happy, sad]" initial_world interrupted never_signalled "Suc 0"
        "InfluxdbModel ''mood'' ''pi_mood''"]
  from inst v bs dup c
  have one: "\<exists>w'. script no_faults never_signalled (Suc 0) (raw_of twins) initial_world
            = Exited (Inl HardwareFault, w')
         \<and> channels w' = [] \<and> listeners w' = []"
    by blast
  from inst v bs dup fresh
  have two: "\<exists>e w'. script interrupted never_signalled (Suc 0) (raw_of twins) initial_world
            = Exited (Inl e, w') \<and> e \<noteq> DataError \<and> listeners w' = []"
    by blast
  from one two show ?thesis by (rule conjI)
qed

section \<open>Missing sections\<close>

text \<open>
  C7. A configuration file without the \<^verbatim>\<open>influxdb\<close> section passes validation (the
  section comes out as \<^verbatim>\<open>None\<close>); the run then ends in \<^verbatim>\<open>AttributeError\<close> when
  the handler is built, not in a validation error. Even the empty file passes validation.
\<close>

theorem missing_section_passes_validation:
  "OverallModel_validate no_store = Inr (OverallModel (Some [happy]) (Some (LedModel 6 200)) 200 None)
   \<and> script no_faults never_signalled (Suc 0) no_store initial_world =
       Exited (Inl AttributeError,
             initial_world\<lparr>events :=
               [Logging_basicConfig, Open_file ''config.yaml'', Yaml_safe_load,
                Log INFO (LoadedConfiguration
                   (OverallModel (Some [happy]) (Some (LedModel 6 200)) 200 None))]\<rparr>)
   \<and> OverallModel_validate empty_file = Inr (OverallModel None None 200 None)"
proof -
  have v: "OverallModel_validate no_store
      = Inr (OverallModel (Some [happy]) (Some (LedModel 6 200)) 200 None)"
    by (simp add: OverallModel_validate_def optional_def ButtonModel_validate_def
        LedModel_validate_def no_store_def happy_def)
  have s: "script no_faults never_signalled (Suc 0) no_store initial_world =
       Exited (Inl AttributeError,
             initial_world\<lparr>events :=
               [Logging_basicConfig, Open_file ''config.yaml'', Yaml_safe_load,
                Log INFO (LoadedConfiguration
                   (OverallModel (Some [happy]) (Some (LedModel 6 200)) 200 None))]\<rparr>)"
    by (simp add: script_def setup_logging_def load_config_from_file_def v main_def
        post_to_influxdb_and_flash_led_callback_def post_to_influxdb_callback_def
        get_influxdb_client_def run_defs initial_world_def no_faults_def)
  have e: "OverallModel_validate empty_file = Inr (OverallModel None None 200 None)"
    by (simp add: OverallModel_validate_def optional_def empty_file_def)
  from v s e show ?thesis by blast
qed

end
